theory Spec2Isabelle
  imports Main
begin

section \<open>Signal messages (src/types.ts)\<close>

type_synonym peer_id = string
type_synonym room_id = string

datatype signal_type = Offer | Answer | IceCandidate | Join | Leave

datatype sdp_type = SdpOffer | SdpAnswer

text \<open>
  \<open>signal_data\<close> is \<open>RTCSessionDescriptionInit | RTCIceCandidateInit | object\<close>.
  \<open>PlainObject []\<close> stands for the empty object \<open>{}\<close> that join and leave carry; any
  other \<open>PlainObject\<close> is an object that is neither a description nor a candidate.
\<close>

datatype signal_data =
    SessionDescription sdp_type string
  | IceCandidateInit string
  | PlainObject string

record signal_message =
  room_id :: room_id
  peer_id :: peer_id
  target_peer_id :: "peer_id option"
  signal_type :: signal_type
  signal_data :: signal_data

text \<open>JavaScript truthiness of a \<open>string | null\<close>: null and the empty string are falsy.\<close>

definition truthy :: "string option \<Rightarrow> bool" where
  "truthy v = (case v of None \<Rightarrow> False | Some s \<Rightarrow> s \<noteq> [])"

section \<open>Errors, callbacks, observable actions\<close>

text \<open>
  \<open>Error msg\<close> is a \<open>new Error(msg)\<close> thrown by the code itself; \<open>External msg\<close> is an
  exception or a rejected promise of a collaborator (the browser's media stack, the relay
  client).
\<close>

datatype error = Error string | External string

text \<open>The closures the application registers on its two services.\<close>

datatype callback = RemoteAudioSink | CandidateForwarder | SignalHandler

datatype media_stream = MediaStream (getTracks: "nat list")

text \<open>
  Calls that leave the component, in the order made: rows inserted into the relay's
  tables, broadcasts on a channel, subscription changes, console output, and the release of
  media resources.
\<close>

datatype action =
    RoomsInsert string
  | SignalingInsert signal_message
  | ChannelSubscribe string
  | ChannelSend string signal_message
  | ChannelUnsubscribe string
  | ConsoleError string
  | TrackStop nat
  | PeerConnectionClose

section \<open>The collaborators' answers\<close>

text \<open>
  Every call into a collaborator may resolve or reject. One \<open>env\<close> holds the answer each
  such call gets during one operation of the code (no operation makes the same external call
  twice). For the media stack, \<open>None\<close> in an \<open>error option\<close> field means the call
  resolved.

  The relay client reports a failure in the value its promise resolves with: the result of a
  query carries an \<open>error\<close> field, which \<open>joinRoom\<close> reads for the insert into
  \<open>rooms\<close> and throws itself, and \<open>send\<close> and \<open>unsubscribe\<close> resolve with a status.
  A call of the relay client therefore settles in one of three ways: \<open>Done\<close>, it resolved
  and took effect; \<open>Failed err\<close>, it resolved and its value reports the failure;
  \<open>Thrown err\<close>, the promise rejected. \<open>sendSignal\<close> and \<open>leave\<close> discard the
  value of a resolved call, so for them \<open>Done\<close> and \<open>Failed\<close> differ only in what the
  relay did. \<open>existingRoom\<close> is the row \<open>maybeSingle()\<close> returns for the room name (a
  failed query yields no data, which the code treats like no row); \<open>newRoom\<close> is the
  result of the insert into \<open>rooms\<close>, \<open>Inl\<close> its \<open>error\<close> field.
\<close>

datatype settled = Done | Failed error | Thrown error

record env =
  userMedia :: "error + media_stream"
  newPeerConnection :: "error option"
  offerCreated :: "error + string"
  answerCreated :: "error + string"
  localDescriptionSet :: "error option"
  remoteDescriptionSet :: "error option"
  iceCandidateAdded :: "error option"
  existingRoom :: "room_id option"
  newRoom :: "error + room_id"
  signalingInserted :: settled
  channelSent :: settled
  channelUnsubscribed :: settled

section \<open>The browser's RTCPeerConnection\<close>

text \<open>
  The part of an \<open>RTCPeerConnection\<close> the code drives: the tracks added, the two
  descriptions and the remote candidates it has accepted, in order. Besides the rejections
  \<open>env\<close> dictates, the platform rejects a description built from an object that is not a
  session description, a candidate built from an object that is not a candidate, and any
  candidate while no remote description is set (\<open>InvalidStateError\<close>).
\<close>

record peer_connection =
  senders :: "nat list"
  localDescription :: "signal_data option"
  remoteDescription :: "signal_data option"
  remoteCandidates :: "string list"

definition new_RTCPeerConnection :: peer_connection where
  "new_RTCPeerConnection =
     \<lparr>senders = [], localDescription = None, remoteDescription = None, remoteCandidates = []\<rparr>"

definition addTrack :: "nat \<Rightarrow> peer_connection \<Rightarrow> peer_connection" where
  "addTrack t pc = pc\<lparr>senders := senders pc @ [t]\<rparr>"

definition pc_createOffer :: "env \<Rightarrow> error + signal_data" where
  "pc_createOffer e =
     (case offerCreated e of Inl err \<Rightarrow> Inl err | Inr s \<Rightarrow> Inr (SessionDescription SdpOffer s))"

definition pc_createAnswer :: "env \<Rightarrow> error + signal_data" where
  "pc_createAnswer e =
     (case answerCreated e of Inl err \<Rightarrow> Inl err | Inr s \<Rightarrow> Inr (SessionDescription SdpAnswer s))"

definition setLocalDescription :: "env \<Rightarrow> signal_data \<Rightarrow> peer_connection \<Rightarrow> error + peer_connection" where
  "setLocalDescription e d pc =
     (case d of
        SessionDescription t s \<Rightarrow>
          (case localDescriptionSet e of
             Some err \<Rightarrow> Inl err
           | None \<Rightarrow> Inr (pc\<lparr>localDescription := Some d\<rparr>))
      | _ \<Rightarrow> Inl (External ''TypeError''))"

definition setRemoteDescription :: "env \<Rightarrow> signal_data \<Rightarrow> peer_connection \<Rightarrow> error + peer_connection" where
  "setRemoteDescription e d pc =
     (case d of
        SessionDescription t s \<Rightarrow>
          (case remoteDescriptionSet e of
             Some err \<Rightarrow> Inl err
           | None \<Rightarrow> Inr (pc\<lparr>remoteDescription := Some d\<rparr>))
      | _ \<Rightarrow> Inl (External ''TypeError''))"

definition pc_addIceCandidate :: "env \<Rightarrow> signal_data \<Rightarrow> peer_connection \<Rightarrow> error + peer_connection" where
  "pc_addIceCandidate e d pc =
     (case d of
        IceCandidateInit c \<Rightarrow>
          (if remoteDescription pc = None then Inl (External ''InvalidStateError'')
           else case iceCandidateAdded e of
             Some err \<Rightarrow> Inl err
           | None \<Rightarrow> Inr (pc\<lparr>remoteCandidates := remoteCandidates pc @ [c]\<rparr>))
      | _ \<Rightarrow> Inl (External ''TypeError''))"

section \<open>WebRTCConnection (src/webrtc.ts)\<close>

record webrtc_connection =
  peerConnection :: "peer_connection option"
  localStream :: "media_stream option"
  remoteStream :: "media_stream option"
  onRemoteStreamCallback :: "callback option"
  onIceCandidateCallback :: "callback option"

definition new_WebRTCConnection :: webrtc_connection where
  "new_WebRTCConnection =
     \<lparr>peerConnection = None, localStream = None, remoteStream = None,
      onRemoteStreamCallback = None, onIceCandidateCallback = None\<rparr>"

definition not_initialized :: error where
  "not_initialized = Error ''Peer connection not initialized''"

text \<open>
  Each method returns how it completed (\<open>Inl\<close>: the exception thrown), the object after
  the call and the actions it made. \<open>initialize\<close> logs and rethrows whatever its body
  throws; the fields assigned before the throw keep their values. The calls of its body that
  can throw are \<open>getUserMedia\<close> and the constructor of the peer connection; adding the
  tracks of a new stream to a new connection and assigning the two event handlers cannot.
\<close>

definition initialize ::
  "env \<Rightarrow> webrtc_connection \<Rightarrow> (error + unit) \<times> webrtc_connection \<times> action list" where
  "initialize e c =
     (case userMedia e of
        Inl err \<Rightarrow> (Inl err, c, [ConsoleError ''Error initializing WebRTC:''])
      | Inr stream \<Rightarrow>
          (let c1 = c\<lparr>localStream := Some stream\<rparr> in
           case newPeerConnection e of
             Some err \<Rightarrow> (Inl err, c1, [ConsoleError ''Error initializing WebRTC:''])
           | None \<Rightarrow>
               (Inr (),
                c1\<lparr>peerConnection := Some (fold addTrack (getTracks stream) new_RTCPeerConnection)\<rparr>,
                [])))"

definition createOffer ::
  "env \<Rightarrow> webrtc_connection \<Rightarrow> (error + signal_data) \<times> webrtc_connection" where
  "createOffer e c =
     (case peerConnection c of
        None \<Rightarrow> (Inl not_initialized, c)
      | Some pc \<Rightarrow>
          (case pc_createOffer e of
             Inl err \<Rightarrow> (Inl err, c)
           | Inr offer \<Rightarrow>
               (case setLocalDescription e offer pc of
                  Inl err \<Rightarrow> (Inl err, c)
                | Inr pc' \<Rightarrow> (Inr offer, c\<lparr>peerConnection := Some pc'\<rparr>))))"

definition createAnswer ::
  "env \<Rightarrow> webrtc_connection \<Rightarrow> (error + signal_data) \<times> webrtc_connection" where
  "createAnswer e c =
     (case peerConnection c of
        None \<Rightarrow> (Inl not_initialized, c)
      | Some pc \<Rightarrow>
          (case pc_createAnswer e of
             Inl err \<Rightarrow> (Inl err, c)
           | Inr answer \<Rightarrow>
               (case setLocalDescription e answer pc of
                  Inl err \<Rightarrow> (Inl err, c)
                | Inr pc' \<Rightarrow> (Inr answer, c\<lparr>peerConnection := Some pc'\<rparr>))))"

definition handleOffer ::
  "env \<Rightarrow> signal_data \<Rightarrow> webrtc_connection \<Rightarrow> (error + unit) \<times> webrtc_connection" where
  "handleOffer e offer c =
     (case peerConnection c of
        None \<Rightarrow> (Inl not_initialized, c)
      | Some pc \<Rightarrow>
          (case setRemoteDescription e offer pc of
             Inl err \<Rightarrow> (Inl err, c)
           | Inr pc' \<Rightarrow> (Inr (), c\<lparr>peerConnection := Some pc'\<rparr>)))"

definition handleAnswer ::
  "env \<Rightarrow> signal_data \<Rightarrow> webrtc_connection \<Rightarrow> (error + unit) \<times> webrtc_connection" where
  "handleAnswer e answer c =
     (case peerConnection c of
        None \<Rightarrow> (Inl not_initialized, c)
      | Some pc \<Rightarrow>
          (case setRemoteDescription e answer pc of
             Inl err \<Rightarrow> (Inl err, c)
           | Inr pc' \<Rightarrow> (Inr (), c\<lparr>peerConnection := Some pc'\<rparr>)))"

definition addIceCandidate ::
  "env \<Rightarrow> signal_data \<Rightarrow> webrtc_connection \<Rightarrow> (error + unit) \<times> webrtc_connection" where
  "addIceCandidate e candidate c =
     (case peerConnection c of
        None \<Rightarrow> (Inl not_initialized, c)
      | Some pc \<Rightarrow>
          (case pc_addIceCandidate e candidate pc of
             Inl err \<Rightarrow> (Inl err, c)
           | Inr pc' \<Rightarrow> (Inr (), c\<lparr>peerConnection := Some pc'\<rparr>)))"

definition onRemoteStream :: "callback \<Rightarrow> webrtc_connection \<Rightarrow> webrtc_connection" where
  "onRemoteStream cb c = c\<lparr>onRemoteStreamCallback := Some cb\<rparr>"

definition onIceCandidate :: "callback \<Rightarrow> webrtc_connection \<Rightarrow> webrtc_connection" where
  "onIceCandidate cb c = c\<lparr>onIceCandidateCallback := Some cb\<rparr>"

definition close ::
  "webrtc_connection \<Rightarrow> (error + unit) \<times> webrtc_connection \<times> action list" where
  "close c =
     (Inr (),
      c\<lparr>localStream := None, remoteStream := None, peerConnection := None\<rparr>,
      (case localStream c of None \<Rightarrow> [] | Some s \<Rightarrow> map TrackStop (getTracks s)) @
      (case peerConnection c of None \<Rightarrow> [] | Some pc \<Rightarrow> [PeerConnectionClose]))"

text \<open>
  A client of the class makes calls one after another, each with the answers its external
  calls get, and may catch what a call throws; \<open>invoke\<close> is one such call, \<open>run_calls\<close> a
  sequence of them.
\<close>

datatype call =
    Initialize
  | CreateOffer
  | CreateAnswer
  | HandleOffer signal_data
  | HandleAnswer signal_data
  | AddIceCandidate signal_data
  | OnRemoteStream callback
  | OnIceCandidate callback
  | Close

definition completed :: "error + 'a \<Rightarrow> bool" where
  "completed r = (case r of Inl err \<Rightarrow> False | Inr v \<Rightarrow> True)"

definition invoke :: "env \<Rightarrow> call \<Rightarrow> webrtc_connection \<Rightarrow> bool \<times> webrtc_connection" where
  "invoke e k c =
     (case k of
        Initialize \<Rightarrow> (case initialize e c of (r, c', t) \<Rightarrow> (completed r, c'))
      | CreateOffer \<Rightarrow> (case createOffer e c of (r, c') \<Rightarrow> (completed r, c'))
      | CreateAnswer \<Rightarrow> (case createAnswer e c of (r, c') \<Rightarrow> (completed r, c'))
      | HandleOffer d \<Rightarrow> (case handleOffer e d c of (r, c') \<Rightarrow> (completed r, c'))
      | HandleAnswer d \<Rightarrow> (case handleAnswer e d c of (r, c') \<Rightarrow> (completed r, c'))
      | AddIceCandidate d \<Rightarrow> (case addIceCandidate e d c of (r, c') \<Rightarrow> (completed r, c'))
      | OnRemoteStream cb \<Rightarrow> (True, onRemoteStream cb c)
      | OnIceCandidate cb \<Rightarrow> (True, onIceCandidate cb c)
      | Close \<Rightarrow> (case close c of (r, c', t) \<Rightarrow> (completed r, c')))"

text \<open>
  \<open>unready_after ready ks\<close>: after the calls \<open>ks\<close>, made on an object on which
  \<open>initialize\<close> has completed since the last \<open>close\<close> iff \<open>ready\<close>, no \<open>initialize\<close>
  has completed since construction or since the last \<open>close\<close>. It looks only at which calls
  were made and how they completed, never at the fields.
\<close>

fun run_calls :: "(env \<times> call) list \<Rightarrow> webrtc_connection \<Rightarrow> webrtc_connection" where
  "run_calls [] c = c"
| "run_calls ((e, k) # ks) c = run_calls ks (snd (invoke e k c))"

fun unready_after :: "bool \<Rightarrow> (env \<times> call) list \<Rightarrow> webrtc_connection \<Rightarrow> bool" where
  "unready_after ready [] c = (\<not> ready)"
| "unready_after ready ((e, k) # ks) c =
     unready_after
       (if k = Close then False
        else if k = Initialize \<and> fst (invoke e k c) then True
        else ready)
       ks (snd (invoke e k c))"

section \<open>SignalingService (src/signaling.ts)\<close>

text \<open>
  \<open>channel\<close> holds the topic of the \<open>RealtimeChannel\<close> the service created. The peer
  identifier is \<open>peer_\<close> followed by characters drawn from \<open>Math.random()\<close>, which the
  constructor receives here as \<open>rnd\<close>.
\<close>

record signaling_service =
  roomId :: "room_id option"
  peerId :: peer_id
  channel :: "string option"
  onMessageCallback :: "callback option"

definition generatePeerId :: "string \<Rightarrow> peer_id" where
  "generatePeerId rnd = ''peer_'' @ rnd"

definition new_SignalingService :: "string \<Rightarrow> signaling_service" where
  "new_SignalingService rnd =
     \<lparr>roomId = None, peerId = generatePeerId rnd, channel = None, onMessageCallback = None\<rparr>"

definition not_connected :: error where
  "not_connected = Error ''Not connected to a room''"

text \<open>
  \<open>sendSignal\<close> changes no field, so it returns its completion and its actions only. An
  action is listed when the call is made, whatever way the call then settles. Only a rejected
  promise makes \<open>sendSignal\<close> throw: the value of a resolved insert or send is not looked
  at.
\<close>

definition sendSignal ::
  "env \<Rightarrow> signaling_service \<Rightarrow> signal_type \<Rightarrow> signal_data \<Rightarrow> peer_id option \<Rightarrow>
   (error + unit) \<times> action list" where
  "sendSignal e svc signalType signalData targetPeerId =
     (case roomId svc of
        None \<Rightarrow> (Inl not_connected, [])
      | Some r \<Rightarrow>
          if r = [] then (Inl not_connected, [])
          else
            (let message = \<lparr>room_id = r, peer_id = peerId svc, target_peer_id = targetPeerId,
                             signal_type = signalType, signal_data = signalData\<rparr> in
             case signalingInserted e of
               Thrown err \<Rightarrow> (Inl err, [SignalingInsert message])
             | _ \<Rightarrow>
                 (case channel svc of
                    None \<Rightarrow> (Inr (), [SignalingInsert message])
                  | Some ch \<Rightarrow>
                      (case channelSent e of
                         Thrown err \<Rightarrow> (Inl err, [SignalingInsert message, ChannelSend ch message])
                       | _ \<Rightarrow> (Inr (), [SignalingInsert message, ChannelSend ch message])))))"

definition joinRoom ::
  "env \<Rightarrow> string \<Rightarrow> signaling_service \<Rightarrow> (error + peer_id) \<times> signaling_service \<times> action list" where
  "joinRoom e roomName svc =
     (let resolved =
        (case existingRoom e of
           Some r \<Rightarrow> Inr (r, [])
         | None \<Rightarrow>
             (case newRoom e of
                Inl err \<Rightarrow> Inl err
              | Inr r \<Rightarrow> Inr (r, [RoomsInsert roomName])))
      in case resolved of
        Inl err \<Rightarrow> (Inl err, svc, [RoomsInsert roomName])
      | Inr (r, t) \<Rightarrow>
          (let topic = ''room:'' @ r;
               svc1 = svc\<lparr>roomId := Some r, channel := Some topic\<rparr>;
               t1 = t @ [ChannelSubscribe topic]
           in case sendSignal e svc1 Join (PlainObject []) None of
             (Inl err, t2) \<Rightarrow> (Inl err, svc1, t1 @ t2)
           | (Inr u, t2) \<Rightarrow> (Inr (peerId svc1), svc1, t1 @ t2)))"

text \<open>
  The listener \<open>joinRoom\<close> installs on the channel: the callback to run for a broadcast
  payload, if any.
\<close>

definition broadcast_listener :: "signaling_service \<Rightarrow> signal_message \<Rightarrow> callback option" where
  "broadcast_listener svc payload =
     (if peer_id payload \<noteq> peerId svc then onMessageCallback svc else None)"

definition onMessage :: "callback \<Rightarrow> signaling_service \<Rightarrow> signaling_service" where
  "onMessage cb svc = svc\<lparr>onMessageCallback := Some cb\<rparr>"

definition getPeerId :: "signaling_service \<Rightarrow> peer_id" where
  "getPeerId svc = peerId svc"

definition leave ::
  "env \<Rightarrow> signaling_service \<Rightarrow> (error + unit) \<times> signaling_service \<times> action list" where
  "leave e svc =
     (case (if truthy (roomId svc) then sendSignal e svc Leave (PlainObject []) None
            else (Inr (), [])) of
        (Inl err, t) \<Rightarrow> (Inl err, svc, t)
      | (Inr u, t) \<Rightarrow>
          (case channel svc of
             None \<Rightarrow> (Inr (), svc\<lparr>roomId := None\<rparr>, t)
           | Some ch \<Rightarrow>
               (case channelUnsubscribed e of
                  Thrown err \<Rightarrow> (Inl err, svc, t @ [ChannelUnsubscribe ch])
                | _ \<Rightarrow>
                    (Inr (), svc\<lparr>channel := None, roomId := None\<rparr>, t @ [ChannelUnsubscribe ch]))))"

text \<open>Calls on a service, made one after another by a client that may catch what they throw.\<close>

datatype service_call =
    JoinRoom string
  | SendSignal signal_type signal_data "peer_id option"
  | OnMessage callback
  | LeaveRoom

definition invoke_service :: "env \<Rightarrow> service_call \<Rightarrow> signaling_service \<Rightarrow> signaling_service" where
  "invoke_service e k svc =
     (case k of
        JoinRoom n \<Rightarrow> fst (snd (joinRoom e n svc))
      | SendSignal ty d tgt \<Rightarrow> svc
      | OnMessage cb \<Rightarrow> onMessage cb svc
      | LeaveRoom \<Rightarrow> fst (snd (leave e svc)))"

fun run_service_calls :: "(env \<times> service_call) list \<Rightarrow> signaling_service \<Rightarrow> signaling_service" where
  "run_service_calls [] svc = svc"
| "run_service_calls ((e, k) # ks) svc = run_service_calls ks (invoke_service e k svc)"

text \<open>
  \<open>resolves\<close>: the promise of a relay call did not reject. \<open>leave_signal r svc\<close> is the
  message \<open>leave()\<close> publishes for a service bound to room \<open>r\<close>.
\<close>

definition resolves :: "settled \<Rightarrow> bool" where
  "resolves r = (case r of Thrown err \<Rightarrow> False | _ \<Rightarrow> True)"

definition leave_signal :: "room_id \<Rightarrow> signaling_service \<Rightarrow> signal_message" where
  "leave_signal r svc =
     \<lparr>room_id = r, peer_id = peerId svc, target_peer_id = None,
      signal_type = Leave, signal_data = PlainObject []\<rparr>"

definition is_log :: "action \<Rightarrow> bool" where
  "is_log a = (case a of ConsoleError m \<Rightarrow> True | _ \<Rightarrow> False)"

section \<open>ClickToTalkApp (src/main.ts)\<close>

text \<open>
  Of the page, the record keeps what the handlers write and a claim can observe: the text
  and class of the status element, whether the join button is disabled and whether the call
  section is shown.
\<close>

datatype status_type = Connected | Disconnected | Connecting

record app =
  webrtc :: "webrtc_connection option"
  signaling :: signaling_service
  remotePeerId :: "peer_id option"
  isInitiator :: bool
  statusText :: string
  statusType :: status_type
  joinButtonDisabled :: bool
  callSectionShown :: bool

definition new_ClickToTalkApp :: "string \<Rightarrow> app" where
  "new_ClickToTalkApp rnd =
     \<lparr>webrtc = None, signaling = new_SignalingService rnd, remotePeerId = None,
      isInitiator = False, statusText = ''Connecting...'', statusType = Connecting,
      joinButtonDisabled = False, callSectionShown = False\<rparr>"

definition updateStatus :: "string \<Rightarrow> status_type \<Rightarrow> app \<Rightarrow> app" where
  "updateStatus message ty s = s\<lparr>statusText := message, statusType := ty\<rparr>"

text \<open>
  \<open>initializeConnection\<close> stores the new \<open>WebRTCConnection\<close> in \<open>webrtc\<close> before it
  awaits \<open>initialize()\<close>, so the reference stays when \<open>initialize()\<close> throws.
\<close>

definition initializeConnection :: "env \<Rightarrow> app \<Rightarrow> (error + unit) \<times> app \<times> action list" where
  "initializeConnection e s =
     (case webrtc s of
        Some w \<Rightarrow> (Inr (), s, [])
      | None \<Rightarrow>
          (case initialize e new_WebRTCConnection of
             (Inl err, w1, t) \<Rightarrow> (Inl err, s\<lparr>webrtc := Some w1\<rparr>, t)
           | (Inr u, w1, t) \<Rightarrow>
               (let w2 = onIceCandidate CandidateForwarder (onRemoteStream RemoteAudioSink w1) in
                if isInitiator s \<and> truthy (remotePeerId s) then
                  (case createOffer e w2 of
                     (Inl err, w3) \<Rightarrow> (Inl err, s\<lparr>webrtc := Some w3\<rparr>, t)
                   | (Inr offer, w3) \<Rightarrow>
                       (case sendSignal e (signaling s) Offer offer (remotePeerId s) of
                          (r, t') \<Rightarrow> (r, s\<lparr>webrtc := Some w3\<rparr>, t @ t')))
                else (Inr (), s\<lparr>webrtc := Some w2\<rparr>, t))))"

text \<open>The five cases of the \<open>switch\<close> in \<open>handleSignalMessage\<close>, each the body of its case.\<close>

definition on_join :: "env \<Rightarrow> signal_message \<Rightarrow> app \<Rightarrow> (error + unit) \<times> app \<times> action list" where
  "on_join e message s =
     (if \<not> truthy (remotePeerId s) then
        initializeConnection e
          (updateStatus ''Peer joined! Ready to talk'' Connected
             (s\<lparr>remotePeerId := Some (peer_id message), isInitiator := True\<rparr>))
      else (Inr (), s, []))"

definition on_offer :: "env \<Rightarrow> signal_message \<Rightarrow> app \<Rightarrow> (error + unit) \<times> app \<times> action list" where
  "on_offer e message s =
     (case initializeConnection e (s\<lparr>remotePeerId := Some (peer_id message), isInitiator := False\<rparr>) of
        (Inl err, s1, t) \<Rightarrow> (Inl err, s1, t)
      | (Inr u, s1, t) \<Rightarrow>
          (case webrtc s1 of
             None \<Rightarrow> (Inr (), updateStatus ''Connected! Ready to talk'' Connected s1, t)
           | Some w \<Rightarrow>
               (case handleOffer e (signal_data message) w of
                  (Inl err, w1) \<Rightarrow> (Inl err, s1\<lparr>webrtc := Some w1\<rparr>, t)
                | (Inr u1, w1) \<Rightarrow>
                    (case createAnswer e w1 of
                       (Inl err, w2) \<Rightarrow> (Inl err, s1\<lparr>webrtc := Some w2\<rparr>, t)
                     | (Inr answer, w2) \<Rightarrow>
                         (case sendSignal e (signaling s1) Answer answer (remotePeerId s1) of
                            (Inl err, t') \<Rightarrow> (Inl err, s1\<lparr>webrtc := Some w2\<rparr>, t @ t')
                          | (Inr u2, t') \<Rightarrow>
                              (Inr (),
                               updateStatus ''Connected! Ready to talk'' Connected
                                 (s1\<lparr>webrtc := Some w2\<rparr>),
                               t @ t'))))))"

definition on_answer :: "env \<Rightarrow> signal_message \<Rightarrow> app \<Rightarrow> (error + unit) \<times> app \<times> action list" where
  "on_answer e message s =
     (case webrtc s of
        None \<Rightarrow> (Inr (), s, [])
      | Some w \<Rightarrow>
          if Some (peer_id message) = remotePeerId s then
            (case handleAnswer e (signal_data message) w of
               (Inl err, w1) \<Rightarrow> (Inl err, s\<lparr>webrtc := Some w1\<rparr>, [])
             | (Inr u, w1) \<Rightarrow>
                 (Inr (),
                  updateStatus ''Connected! Ready to talk'' Connected (s\<lparr>webrtc := Some w1\<rparr>),
                  []))
          else (Inr (), s, []))"

definition on_ice_candidate ::
  "env \<Rightarrow> signal_message \<Rightarrow> app \<Rightarrow> (error + unit) \<times> app \<times> action list" where
  "on_ice_candidate e message s =
     (case webrtc s of
        None \<Rightarrow> (Inr (), s, [])
      | Some w \<Rightarrow>
          if Some (peer_id message) = remotePeerId s then
            (case addIceCandidate e (signal_data message) w of
               (r, w1) \<Rightarrow> (r, s\<lparr>webrtc := Some w1\<rparr>, []))
          else (Inr (), s, []))"

definition on_leave :: "signal_message \<Rightarrow> app \<Rightarrow> (error + unit) \<times> app \<times> action list" where
  "on_leave message s =
     (if Some (peer_id message) = remotePeerId s then
        (let s1 = (updateStatus ''Peer disconnected'' Disconnected s)\<lparr>remotePeerId := None\<rparr> in
         case webrtc s1 of
           None \<Rightarrow> (Inr (), s1, [])
         | Some w \<Rightarrow> (case close w of (r, w1, t) \<Rightarrow> (r, s1\<lparr>webrtc := None\<rparr>, t)))
      else (Inr (), s, []))"

text \<open>
  \<open>handleSignalMessage\<close> wraps the \<open>switch\<close> in \<open>try\<close>/\<open>catch\<close>: whatever a case throws
  is written to the console and the handler returns normally, so its result has no error
  component. One run of the handler is one step here: the page's single event loop runs the
  handlers one at a time, and a second signal arriving while a run awaits is not represented.
\<close>

definition handleSignalMessage :: "env \<Rightarrow> signal_message \<Rightarrow> app \<Rightarrow> app \<times> action list" where
  "handleSignalMessage e message s =
     (case (case signal_type message of
              Join \<Rightarrow> on_join e message s
            | Offer \<Rightarrow> on_offer e message s
            | Answer \<Rightarrow> on_answer e message s
            | IceCandidate \<Rightarrow> on_ice_candidate e message s
            | Leave \<Rightarrow> on_leave message s) of
        (Inl err, s', t) \<Rightarrow> (s', t @ [ConsoleError ''Error handling signal:''])
      | (Inr u, s', t) \<Rightarrow> (s', t))"

text \<open>
  The callback given to \<open>onIceCandidate\<close>: a candidate the local engine gathers is sent to
  the bound remote peer. The promise of \<open>sendSignal\<close> is not awaited.
\<close>

definition forward_candidate :: "env \<Rightarrow> string \<Rightarrow> app \<Rightarrow> action list" where
  "forward_candidate e candidate s =
     (if truthy (remotePeerId s) then
        snd (sendSignal e (signaling s) IceCandidate (IceCandidateInit candidate) (remotePeerId s))
      else [])"

text \<open>
  \<open>joinRoom\<close> of the application. Its argument \<open>roomName\<close> is the value of
  \<open>this.roomInput.value.trim()\<close>, the room name as the language's library has trimmed
  it; the method returns at once when that value is empty.
\<close>

definition app_joinRoom :: "env \<Rightarrow> string \<Rightarrow> app \<Rightarrow> app \<times> action list" where
  "app_joinRoom e roomName s =
     (if roomName = [] then (s, [])
      else
        (let s1 = updateStatus ''Joining room...'' Connecting (s\<lparr>joinButtonDisabled := True\<rparr>) in
         case joinRoom e roomName (signaling s1) of
           (Inl err, svc, t) \<Rightarrow>
             ((updateStatus ''Failed to join room'' Disconnected (s1\<lparr>signaling := svc\<rparr>))
                \<lparr>joinButtonDisabled := False\<rparr>,
              t @ [ConsoleError ''Error joining room:''])
         | (Inr p, svc, t) \<Rightarrow>
             (updateStatus ''Waiting for peer...'' Connecting
                (s1\<lparr>signaling := onMessage SignalHandler svc, callSectionShown := True\<rparr>),
              t)))"

definition leaveRoom :: "env \<Rightarrow> app \<Rightarrow> (error + unit) \<times> app \<times> action list" where
  "leaveRoom e s =
     (case leave e (signaling s) of
        (Inl err, svc, t) \<Rightarrow> (Inl err, s\<lparr>signaling := svc\<rparr>, t)
      | (Inr u, svc, t) \<Rightarrow>
          (let s1 = s\<lparr>signaling := svc\<rparr>;
               t1 = (case webrtc s1 of None \<Rightarrow> [] | Some w \<Rightarrow> snd (snd (close w)))
           in (Inr (),
               updateStatus ''Disconnected'' Disconnected
                 (s1\<lparr>webrtc := None, remotePeerId := None, isInitiator := False,
                     callSectionShown := False, joinButtonDisabled := False\<rparr>),
               t @ t1)))"

section \<open>Two sessions and the relay between them\<close>

text \<open>
  A broadcast on a topic reaches every session whose channel has that topic; there the
  listener of \<open>SignalingService\<close> decides whether the application's handler runs.
\<close>

definition deliver :: "env \<Rightarrow> string \<Rightarrow> signal_message \<Rightarrow> app \<Rightarrow> app \<times> action list" where
  "deliver e topic payload s =
     (if channel (signaling s) = Some topic then
        (case broadcast_listener (signaling s) payload of
           None \<Rightarrow> (s, [])
         | Some cb \<Rightarrow> handleSignalMessage e payload s)
      else (s, []))"

text \<open>The broadcasts among the actions of one operation that the relay accepted.\<close>

fun broadcasts :: "action list \<Rightarrow> (string \<times> signal_message) list" where
  "broadcasts [] = []"
| "broadcasts (ChannelSend topic m # t) = (topic, m) # broadcasts t"
| "broadcasts (a # t) = broadcasts t"

definition published :: "env \<Rightarrow> action list \<Rightarrow> (string \<times> signal_message) list" where
  "published e t = (if channelSent e = Done then broadcasts t else [])"

fun rooms_inserted :: "env \<Rightarrow> action list \<Rightarrow> (string \<times> room_id) list" where
  "rooms_inserted e [] = []"
| "rooms_inserted e (RoomsInsert n # t) =
     (case newRoom e of Inl err \<Rightarrow> [] | Inr r \<Rightarrow> [(n, r)]) @ rooms_inserted e t"
| "rooms_inserted e (a # t) = rooms_inserted e t"

text \<open>
  The relay's \<open>rooms\<close> table, the two sessions with the answers their collaborators give,
  and the broadcasts in flight, oldest first.
\<close>

record system =
  roomsTable :: "(string \<times> room_id) list"
  sessA :: app
  sessB :: app
  wire :: "(string \<times> signal_message) list"

definition initial_system :: "string \<Rightarrow> string \<Rightarrow> system" where
  "initial_system rndA rndB =
     \<lparr>roomsTable = [], sessA = new_ClickToTalkApp rndA, sessB = new_ClickToTalkApp rndB, wire = []\<rparr>"

definition join_A :: "env \<Rightarrow> string \<Rightarrow> system \<Rightarrow> system" where
  "join_A eA name sys =
     (let e = eA\<lparr>existingRoom := map_of (roomsTable sys) name\<rparr> in
      case app_joinRoom e name (sessA sys) of
        (a, t) \<Rightarrow>
          sys\<lparr>sessA := a, roomsTable := roomsTable sys @ rooms_inserted e t,
              wire := wire sys @ published e t\<rparr>)"

definition join_B :: "env \<Rightarrow> string \<Rightarrow> system \<Rightarrow> system" where
  "join_B eB name sys =
     (let e = eB\<lparr>existingRoom := map_of (roomsTable sys) name\<rparr> in
      case app_joinRoom e name (sessB sys) of
        (b, t) \<Rightarrow>
          sys\<lparr>sessB := b, roomsTable := roomsTable sys @ rooms_inserted e t,
              wire := wire sys @ published e t\<rparr>)"

definition relay_step :: "env \<Rightarrow> env \<Rightarrow> system \<Rightarrow> system" where
  "relay_step eA eB sys =
     (case wire sys of
        [] \<Rightarrow> sys
      | (topic, m) # rest \<Rightarrow>
          (case deliver eA topic m (sessA sys) of
             (a, ta) \<Rightarrow>
               (case deliver eB topic m (sessB sys) of
                  (b, tb) \<Rightarrow>
                    sys\<lparr>sessA := a, sessB := b,
                        wire := rest @ published eA ta @ published eB tb\<rparr>)))"

fun relay_run :: "nat \<Rightarrow> env \<Rightarrow> env \<Rightarrow> system \<Rightarrow> system" where
  "relay_run 0 eA eB sys = sys"
| "relay_run (Suc n) eA eB sys =
     (if wire sys = [] then sys else relay_run n eA eB (relay_step eA eB sys))"

section \<open>Views of a session\<close>

text \<open>What a session's media engine holds, read through the two references that lead to it.\<close>

definition engine :: "app \<Rightarrow> peer_connection option" where
  "engine s = (case webrtc s of None \<Rightarrow> None | Some w \<Rightarrow> peerConnection w)"

definition remote_description :: "app \<Rightarrow> signal_data option" where
  "remote_description s = (case engine s of None \<Rightarrow> None | Some pc \<Rightarrow> remoteDescription pc)"

definition applied_candidates :: "app \<Rightarrow> string list" where
  "applied_candidates s = (case engine s of None \<Rightarrow> [] | Some pc \<Rightarrow> remoteCandidates pc)"

text \<open>Signals handled one after another, and the candidate signal a peer sends.\<close>

fun handle_all :: "env \<Rightarrow> signal_message list \<Rightarrow> app \<Rightarrow> app" where
  "handle_all e [] s = s"
| "handle_all e (m # ms) s = handle_all e ms (fst (handleSignalMessage e m s))"

definition candidate_signal :: "room_id \<Rightarrow> peer_id \<Rightarrow> peer_id option \<Rightarrow> string \<Rightarrow> signal_message" where
  "candidate_signal r sender target c =
     \<lparr>room_id = r, peer_id = sender, target_peer_id = target,
      signal_type = IceCandidate, signal_data = IceCandidateInit c\<rparr>"

text \<open>
  The shape the specification gives each kind of signal: the empty object for join and
  leave, a session description for offer and answer, a candidate for ice-candidate. The code
  has no such check; the definition serves to say which signals are malformed.
\<close>

definition payload_matches :: "signal_type \<Rightarrow> signal_data \<Rightarrow> bool" where
  "payload_matches ty d =
     (case ty of
        Join \<Rightarrow> d = PlainObject []
      | Leave \<Rightarrow> d = PlainObject []
      | Offer \<Rightarrow> (case d of SessionDescription t x \<Rightarrow> True | _ \<Rightarrow> False)
      | Answer \<Rightarrow> (case d of SessionDescription t x \<Rightarrow> True | _ \<Rightarrow> False)
      | IceCandidate \<Rightarrow> (case d of IceCandidateInit c \<Rightarrow> True | _ \<Rightarrow> False))"

section \<open>Concrete collaborators and objects\<close>

text \<open>Collaborators whose every call resolves, and a service that has joined a room.\<close>

definition ok_env :: env where
  "ok_env =
     \<lparr>userMedia = Inr (MediaStream [0]), newPeerConnection = None,
      offerCreated = Inr ''v=0 offer'', answerCreated = Inr ''v=0 answer'',
      localDescriptionSet = None, remoteDescriptionSet = None, iceCandidateAdded = None,
      existingRoom = None, newRoom = Inr ''room-1'',
      signalingInserted = Done, channelSent = Done, channelUnsubscribed = Done\<rparr>"

text \<open>
  The microphone is refused. The relay cannot be reached: the insert and the broadcast
  resolve with a failure in their values.
\<close>

definition denied_env :: env where
  "denied_env = ok_env\<lparr>userMedia := Inl (External ''NotAllowedError'')\<rparr>"

definition relay_down_env :: env where
  "relay_down_env =
     ok_env\<lparr>signalingInserted := Failed (External ''fetch failed''),
            channelSent := Failed (External ''error'')\<rparr>"

definition joined_service :: signaling_service where
  "joined_service =
     \<lparr>roomId = Some ''room-1'', peerId = ''peer_a'', channel = Some ''room:room-1'',
      onMessageCallback = Some SignalHandler\<rparr>"

definition leave_message :: signal_message where
  "leave_message =
     \<lparr>room_id = ''room-1'', peer_id = ''peer_a'', target_peer_id = None,
      signal_type = Leave, signal_data = PlainObject []\<rparr>"

definition sample_calls :: "(env \<times> call) list" where
  "sample_calls =
     [(denied_env, Initialize), (ok_env, CreateOffer), (ok_env, Initialize),
      (ok_env, CreateOffer), (ok_env, Close), (ok_env, OnIceCandidate CandidateForwarder)]"

text \<open>
  A session of peer \<open>peer_a\<close> that has joined room \<open>room-1\<close> and waits for a peer, and
  signals other peers publish in that room.
\<close>

definition idle_session :: app where
  "idle_session =
     \<lparr>webrtc = None, signaling = joined_service, remotePeerId = None, isInitiator = False,
      statusText = ''Waiting for peer...'', statusType = Connecting,
      joinButtonDisabled = True, callSectionShown = True\<rparr>"

definition room1_signal :: "peer_id \<Rightarrow> peer_id option \<Rightarrow> signal_type \<Rightarrow> signal_data \<Rightarrow> signal_message" where
  "room1_signal sender target ty d =
     \<lparr>room_id = ''room-1'', peer_id = sender, target_peer_id = target,
      signal_type = ty, signal_data = d\<rparr>"

definition join_from_b :: signal_message where
  "join_from_b = room1_signal ''peer_b'' None Join (PlainObject [])"

definition answer_from_b :: signal_message where
  "answer_from_b =
     room1_signal ''peer_b'' (Some ''peer_a'') Answer (SessionDescription SdpAnswer ''v=0 answer'')"

definition candidate_from_b :: signal_message where
  "candidate_from_b = candidate_signal ''room-1'' ''peer_b'' (Some ''peer_a'') ''candidate:1''"

definition malformed_offer :: signal_message where
  "malformed_offer = room1_signal ''peer_b'' (Some ''peer_a'') Offer (PlainObject ''junk'')"

definition stray_offer :: signal_message where
  "stray_offer =
     room1_signal ''peer_c'' (Some ''peer_a'') Offer (SessionDescription SdpOffer ''v=0 other'')"

text \<open>The session after \<open>peer_b\<close> has joined and before its answer has arrived.\<close>

definition offering_session :: app where
  "offering_session = fst (handleSignalMessage ok_env join_from_b idle_session)"

text \<open>The same session once the answer of \<open>peer_b\<close> has been applied.\<close>

definition connected_session :: app where
  "connected_session = fst (handleSignalMessage ok_env answer_from_b offering_session)"

section \<open>Sessions that meet in a room\<close>

text \<open>
  \<open>cooperative e\<close>: every call into the media stack and the relay resolves.
  \<open>creates_room e\<close>: the relay inserts the room row and returns a non-empty identifier.
\<close>

definition cooperative :: "env \<Rightarrow> bool" where
  "cooperative e =
     (completed (userMedia e) \<and> newPeerConnection e = None \<and>
      completed (offerCreated e) \<and> completed (answerCreated e) \<and>
      localDescriptionSet e = None \<and> remoteDescriptionSet e = None \<and>
      iceCandidateAdded e = None \<and> signalingInserted e = Done \<and>
      channelSent e = Done \<and> channelUnsubscribed e = Done)"

definition creates_room :: "env \<Rightarrow> bool" where
  "creates_room e = (case newRoom e of Inl err \<Rightarrow> False | Inr r \<Rightarrow> r \<noteq> [])"

text \<open>
  \<open>waiting_in r s\<close>: the session has joined room \<open>r\<close>, its handler is registered, and it
  has neither a remote peer nor a media engine. \<open>join_signal r s\<close> is the signal its
  \<open>joinRoom\<close> published.
\<close>

definition waiting_in :: "room_id \<Rightarrow> app \<Rightarrow> bool" where
  "waiting_in r s =
     (webrtc s = None \<and> remotePeerId s = None \<and>
      r \<noteq> [] \<and> roomId (signaling s) = Some r \<and>
      channel (signaling s) = Some (''room:'' @ r) \<and>
      onMessageCallback (signaling s) = Some SignalHandler \<and>
      peerId (signaling s) \<noteq> [])"

definition join_signal :: "room_id \<Rightarrow> app \<Rightarrow> signal_message" where
  "join_signal r s =
     \<lparr>room_id = r, peer_id = peerId (signaling s), target_peer_id = None,
      signal_type = Join, signal_data = PlainObject []\<rparr>"

text \<open>Two sessions of one room with the join of \<open>B\<close> in flight.\<close>

definition join_in_flight :: "room_id \<Rightarrow> (string \<times> room_id) list \<Rightarrow> app \<Rightarrow> app \<Rightarrow> system" where
  "join_in_flight r T A B =
     \<lparr>roomsTable = T, sessA = A, sessB = B, wire = [(''room:'' @ r, join_signal r B)]\<rparr>"

text \<open>Kind, sender and addressee of a broadcast.\<close>

definition headline :: "string \<times> signal_message \<Rightarrow> signal_type \<times> peer_id \<times> peer_id option" where
  "headline b = (signal_type (snd b), peer_id (snd b), target_peer_id (snd b))"

text \<open>
  The role a session is in: none while no remote peer is bound, otherwise the one
  \<open>isInitiator\<close> says.
\<close>

datatype role = Initiator | Responder | Unassigned

definition role_of :: "app \<Rightarrow> role" where
  "role_of s =
     (if \<not> truthy (remotePeerId s) then Unassigned
      else if isInitiator s then Initiator else Responder)"

text \<open>
  Two new sessions join the room of the same name one after the other: the first joins and
  the relay delivers what is in flight, then the second joins and the relay delivers until
  nothing is in flight or the \<open>n\<close> deliveries are used up.
\<close>

definition A_then_B :: "env \<Rightarrow> env \<Rightarrow> string \<Rightarrow> string \<Rightarrow> string \<Rightarrow> nat \<Rightarrow> system" where
  "A_then_B eA eB rndA rndB name n =
     relay_run n eA eB
       (join_B eB name (relay_run n eA eB (join_A eA name (initial_system rndA rndB))))"

definition B_then_A :: "env \<Rightarrow> env \<Rightarrow> string \<Rightarrow> string \<Rightarrow> string \<Rightarrow> nat \<Rightarrow> system" where
  "B_then_A eA eB rndA rndB name n =
     relay_run n eA eB
       (join_A eA name (relay_run n eA eB (join_B eB name (initial_system rndA rndB))))"

text \<open>
  Both sessions join before the relay delivers anything, so the two \<open>join\<close> signals are in
  flight together; then the relay delivers.
\<close>

definition joins_overlap :: "env \<Rightarrow> env \<Rightarrow> string \<Rightarrow> string \<Rightarrow> string \<Rightarrow> nat \<Rightarrow> system" where
  "joins_overlap eA eB rndA rndB name n =
     relay_run n eA eB (join_B eB name (join_A eA name (initial_system rndA rndB)))"

text \<open>A second waiting session of the same room, of peer \<open>peer_b\<close>.\<close>

definition second_idle_session :: app where
  "second_idle_session = idle_session\<lparr>signaling := joined_service\<lparr>peerId := ''peer_b''\<rparr>\<rparr>"

section \<open>Properties of WebRTCConnection\<close>

lemma invoke_keeps_unready:
  "peerConnection c = None \<Longrightarrow> k \<noteq> Initialize \<or> \<not> fst (invoke e k c) \<Longrightarrow>
   peerConnection (snd (invoke e k c)) = None"
  by (cases k)
     (auto simp: invoke_def initialize_def createOffer_def createAnswer_def handleOffer_def
        handleAnswer_def addIceCandidate_def onRemoteStream_def onIceCandidate_def close_def
        completed_def Let_def split: sum.splits option.splits)

lemma invoke_Close_unready: "peerConnection (snd (invoke e Close c)) = None"
  by (simp add: invoke_def close_def)

lemma run_calls_unready:
  "unready_after ready ks c \<Longrightarrow> (\<not> ready \<Longrightarrow> peerConnection c = None) \<Longrightarrow>
   peerConnection (run_calls ks c) = None"
proof (induction ks arbitrary: ready c)
  case Nil
  then show ?case by simp
next
  case (Cons ek ks)
  obtain e k where ek: "ek = (e, k)" by (cases ek)
  let ?r = "if k = Close then False else if k = Initialize \<and> fst (invoke e k c) then True else ready"
  from Cons.prems(1) ek have u: "unready_after ?r ks (snd (invoke e k c))" by simp
  have "peerConnection (snd (invoke e k c)) = None" if nr: "\<not> ?r"
  proof (cases "k = Close")
    case True
    then show ?thesis by (simp add: invoke_Close_unready)
  next
    case False
    with nr have a: "\<not> ready" and b: "k \<noteq> Initialize \<or> \<not> fst (invoke e k c)"
      by (auto split: if_splits)
    from Cons.prems(2)[OF a] b show ?thesis by (rule invoke_keeps_unready)
  qed
  with Cons.IH[OF u] show ?case by (simp add: ek)
qed

lemma unready_throws:
  "peerConnection c = None \<Longrightarrow>
     createOffer e c = (Inl not_initialized, c) \<and>
     createAnswer e c = (Inl not_initialized, c) \<and>
     handleOffer e d c = (Inl not_initialized, c) \<and>
     handleAnswer e d c = (Inl not_initialized, c) \<and>
     addIceCandidate e d c = (Inl not_initialized, c)"
  by (simp add: createOffer_def createAnswer_def handleOffer_def handleAnswer_def addIceCandidate_def)

lemma close_result:
  "fst (close c) = Inr () \<and>
   localStream (fst (snd (close c))) = None \<and>
   remoteStream (fst (snd (close c))) = None \<and>
   peerConnection (fst (snd (close c))) = None \<and>
   close (fst (snd (close c))) = (Inr (), fst (snd (close c)), [])"
  by (simp add: close_def)

text \<open>
  C9. On a \<open>WebRTCConnection\<close> reached from construction by any calls such that no
  \<open>initialize()\<close> has completed since construction or since the last \<open>close()\<close>, each of
  \<open>createOffer\<close>, \<open>createAnswer\<close>, \<open>handleOffer\<close>, \<open>handleAnswer\<close> and
  \<open>addIceCandidate\<close> throws the error \<open>Peer connection not initialized\<close> and leaves the
  object as it was, whatever the collaborators would answer. On every object \<open>close()\<close>
  returns normally, leaves \<open>localStream\<close>, \<open>remoteStream\<close> and \<open>peerConnection\<close> null,
  and a second \<open>close()\<close> returns normally, changes nothing and releases nothing.
\<close>

theorem webrtc_guard_and_close:
  assumes "unready_after False ks new_WebRTCConnection"
  shows "createOffer e (run_calls ks new_WebRTCConnection) =
           (Inl not_initialized, run_calls ks new_WebRTCConnection) \<and>
     createAnswer e (run_calls ks new_WebRTCConnection) =
           (Inl not_initialized, run_calls ks new_WebRTCConnection) \<and>
     handleOffer e d (run_calls ks new_WebRTCConnection) =
           (Inl not_initialized, run_calls ks new_WebRTCConnection) \<and>
     handleAnswer e d (run_calls ks new_WebRTCConnection) =
           (Inl not_initialized, run_calls ks new_WebRTCConnection) \<and>
     addIceCandidate e d (run_calls ks new_WebRTCConnection) =
           (Inl not_initialized, run_calls ks new_WebRTCConnection) \<and>
     not_initialized = Error ''Peer connection not initialized'' \<and>
     fst (close c) = Inr () \<and>
     localStream (fst (snd (close c))) = None \<and>
     remoteStream (fst (snd (close c))) = None \<and>
     peerConnection (fst (snd (close c))) = None \<and>
     close (fst (snd (close c))) = (Inr (), fst (snd (close c)), [])"
proof -
  have "peerConnection (run_calls ks new_WebRTCConnection) = None"
    using assms by (rule run_calls_unready) (simp add: new_WebRTCConnection_def)
  then show ?thesis
    using unready_throws close_result by (simp add: not_initialized_def)
qed

theorem webrtc_guard_and_close_witness:
  "unready_after False sample_calls new_WebRTCConnection \<and>
   createOffer ok_env (run_calls sample_calls new_WebRTCConnection) =
     (Inl (Error ''Peer connection not initialized''), run_calls sample_calls new_WebRTCConnection) \<and>
   addIceCandidate ok_env (IceCandidateInit ''candidate:1'') (run_calls sample_calls new_WebRTCConnection) =
     (Inl (Error ''Peer connection not initialized''), run_calls sample_calls new_WebRTCConnection) \<and>
   close (fst (snd (close (run_calls sample_calls new_WebRTCConnection)))) =
     (Inr (), fst (snd (close (run_calls sample_calls new_WebRTCConnection))), [])"
proof -
  have h: "unready_after False sample_calls new_WebRTCConnection"
    by (simp add: sample_calls_def invoke_def initialize_def createOffer_def onIceCandidate_def
          close_def completed_def ok_env_def denied_env_def new_WebRTCConnection_def
          new_RTCPeerConnection_def pc_createOffer_def setLocalDescription_def addTrack_def Let_def)
  from webrtc_guard_and_close [OF h, of ok_env "IceCandidateInit ''candidate:1''"
      "run_calls sample_calls new_WebRTCConnection"] h
  show ?thesis by simp
qed

section \<open>Properties of SignalingService\<close>

lemma leave_peerId: "peerId (fst (snd (leave e svc))) = peerId svc"
  by (simp add: leave_def split: prod.splits sum.splits option.splits settled.splits)

lemma leave_frame:
  "(fst (snd (leave e svc)))\<lparr>roomId := roomId svc, channel := channel svc\<rparr> = svc"
  by (simp add: leave_def split: prod.splits sum.splits option.splits settled.splits)

lemma joinRoom_peerId: "peerId (fst (snd (joinRoom e n svc))) = peerId svc"
  by (simp add: joinRoom_def Let_def split: prod.splits sum.splits option.splits)

lemma invoke_service_peerId: "peerId (invoke_service e k svc) = peerId svc"
  by (cases k) (simp_all add: invoke_service_def leave_peerId joinRoom_peerId onMessage_def)

lemma run_service_calls_peerId: "peerId (run_service_calls ks svc) = peerId svc"
  by (induction ks arbitrary: svc) (auto simp: invoke_service_peerId)

lemma leave_ok_env_joined_service:
  "leave ok_env joined_service =
     (Inr (), joined_service\<lparr>roomId := None, channel := None\<rparr>,
      [SignalingInsert leave_message, ChannelSend ''room:room-1'' leave_message,
       ChannelUnsubscribe ''room:room-1''])"
  by (simp add: leave_def sendSignal_def truthy_def ok_env_def joined_service_def
        leave_message_def Let_def)

text \<open>
  C7. When a call of \<open>leave()\<close> has returned normally, a second call on the resulting
  service returns normally, makes no call to the relay (no \<open>leave\<close> message inserted or
  broadcast, no unsubscribe) and changes no field: the room binding and the channel are
  already released. This holds for every service, joined or not, and whatever the relay would
  answer the second time.
\<close>

theorem leave_second_call_noop:
  assumes "leave e1 svc = (Inr (), svc', t)"
  shows "leave e2 svc' = (Inr (), svc', []) \<and> roomId svc' = None \<and> channel svc' = None"
  using assms
  by (auto simp: leave_def truthy_def
        split: prod.splits sum.splits option.splits if_splits settled.splits)

theorem leave_second_call_noop_witness:
  "leave ok_env joined_service =
     (Inr (), joined_service\<lparr>roomId := None, channel := None\<rparr>,
      [SignalingInsert leave_message, ChannelSend ''room:room-1'' leave_message,
       ChannelUnsubscribe ''room:room-1'']) \<and>
   leave relay_down_env (joined_service\<lparr>roomId := None, channel := None\<rparr>) =
     (Inr (), joined_service\<lparr>roomId := None, channel := None\<rparr>, [])"
  using leave_second_call_noop [OF leave_ok_env_joined_service, of relay_down_env]
    leave_ok_env_joined_service
  by simp

text \<open>
  C10. \<open>leave()\<close> writes \<open>roomId\<close> and \<open>channel\<close> only: putting their old values back
  gives the service as it was. The peer identifier is the one the constructor generated:
  \<open>getPeerId()\<close> returns it on the new service, after any sequence of \<open>joinRoom\<close>,
  \<open>sendSignal\<close>, \<open>onMessage\<close> and \<open>leave\<close> calls whether they succeed or throw, after
  \<open>leave()\<close>, and after a \<open>joinRoom()\<close> that follows a \<open>leave()\<close>.
\<close>

theorem peerId_fixed_at_construction:
  "(fst (snd (leave e svc)))\<lparr>roomId := roomId svc, channel := channel svc\<rparr> = svc \<and>
   getPeerId (new_SignalingService rnd) = generatePeerId rnd \<and>
   getPeerId (run_service_calls ks (new_SignalingService rnd)) = generatePeerId rnd \<and>
   getPeerId (fst (snd (leave e svc))) = getPeerId svc \<and>
   getPeerId (fst (snd (joinRoom e' n (fst (snd (leave e svc)))))) = getPeerId svc"
  by (simp add: getPeerId_def leave_frame leave_peerId joinRoom_peerId run_service_calls_peerId
        new_SignalingService_def)

theorem peerId_fixed_at_construction_witness:
  "getPeerId (run_service_calls
       [(ok_env, JoinRoom ''demo''), (relay_down_env, LeaveRoom), (ok_env, LeaveRoom),
        (ok_env, JoinRoom ''other'')]
       (new_SignalingService ''k3x9'')) = ''peer_k3x9'' \<and>
   getPeerId (fst (snd (leave ok_env joined_service))) = ''peer_a'' \<and>
   getPeerId (fst (snd (joinRoom ok_env ''demo'' (fst (snd (leave ok_env joined_service)))))) = ''peer_a''"
  using peerId_fixed_at_construction [where e = ok_env and svc = joined_service
      and rnd = "''k3x9''" and e' = ok_env and n = "''demo''"
      and ks = "[(ok_env, JoinRoom ''demo''), (relay_down_env, LeaveRoom), (ok_env, LeaveRoom),
        (ok_env, JoinRoom ''other'')]"]
  by (simp add: getPeerId_def generatePeerId_def joined_service_def)

text \<open>
  C8, as the code has it. \<open>leave()\<close> publishes its \<open>leave\<close> message best-effort, but
  silently. On a service that has joined a room, whenever the relay's calls resolve, with or
  without a failure in their values, \<open>leave()\<close> returns normally, its actions are the
  insert and the broadcast of the \<open>leave\<close> message followed by the unsubscribe, the channel
  and the room binding are released, and nothing is written to the console: a failed publish
  is neither raised nor logged.
\<close>

theorem leave_publish_failure_silent:
  assumes "roomId svc = Some r" and "r \<noteq> []" and "channel svc = Some ch"
    and "resolves (signalingInserted e)" and "resolves (channelSent e)"
    and "resolves (channelUnsubscribed e)"
  shows "leave e svc =
           (Inr (), svc\<lparr>channel := None, roomId := None\<rparr>,
            [SignalingInsert (leave_signal r svc), ChannelSend ch (leave_signal r svc),
             ChannelUnsubscribe ch]) \<and>
         list_all (\<lambda>a. \<not> is_log a) (snd (snd (leave e svc)))"
proof -
  have s: "sendSignal e svc Leave (PlainObject []) None =
      (Inr (), [SignalingInsert (leave_signal r svc), ChannelSend ch (leave_signal r svc)])"
    using assms(1-5)
    by (simp add: sendSignal_def leave_signal_def resolves_def Let_def split: settled.splits)
  have "leave e svc =
      (Inr (), svc\<lparr>channel := None, roomId := None\<rparr>,
       [SignalingInsert (leave_signal r svc), ChannelSend ch (leave_signal r svc),
        ChannelUnsubscribe ch])"
    using assms(1,2,3,6) s
    by (simp add: leave_def truthy_def resolves_def split: settled.splits)
  then show ?thesis by (simp add: is_log_def)
qed

theorem leave_publish_failure_silent_witness:
  "signalingInserted relay_down_env = Failed (External ''fetch failed'') \<and>
   channelSent relay_down_env = Failed (External ''error'') \<and>
   leave relay_down_env joined_service =
     (Inr (), joined_service\<lparr>channel := None, roomId := None\<rparr>,
      [SignalingInsert leave_message, ChannelSend ''room:room-1'' leave_message,
       ChannelUnsubscribe ''room:room-1'']) \<and>
   list_all (\<lambda>a. \<not> is_log a) (snd (snd (leave relay_down_env joined_service)))"
proof -
  have h: "roomId joined_service = Some ''room-1''" "''room-1'' \<noteq> []"
    "channel joined_service = Some ''room:room-1''"
    "resolves (signalingInserted relay_down_env)" "resolves (channelSent relay_down_env)"
    "resolves (channelUnsubscribed relay_down_env)"
    "signalingInserted relay_down_env = Failed (External ''fetch failed'')"
    "channelSent relay_down_env = Failed (External ''error'')"
    "leave_signal ''room-1'' joined_service = leave_message"
    by (simp_all add: joined_service_def relay_down_env_def ok_env_def resolves_def
          leave_signal_def leave_message_def)
  from leave_publish_failure_silent [OF h(1-6)] h(7-9) show ?thesis by (simp add: is_log_def)
qed

text \<open>
  C8 as stated fails in one part, the logging: on a joined service whose relay fails both the
  insert and the broadcast of the \<open>leave\<close> message, \<open>leave()\<close> returns normally and
  releases the channel and the room, and none of its actions is a console message.
\<close>

theorem leave_failure_not_logged_counterexample:
  "signalingInserted relay_down_env = Failed (External ''fetch failed'') \<and>
   channelSent relay_down_env = Failed (External ''error'') \<and>
   leave relay_down_env joined_service =
     (Inr (), joined_service\<lparr>channel := None, roomId := None\<rparr>,
      [SignalingInsert leave_message, ChannelSend ''room:room-1'' leave_message,
       ChannelUnsubscribe ''room:room-1'']) \<and>
   filter is_log (snd (snd (leave relay_down_env joined_service))) = []"
  by (simp add: leave_def sendSignal_def truthy_def relay_down_env_def ok_env_def
        joined_service_def leave_message_def is_log_def Let_def)

section \<open>Properties of ClickToTalkApp\<close>

lemmas handler_defs = handleSignalMessage_def on_join_def on_offer_def on_answer_def
  on_ice_candidate_def on_leave_def initializeConnection_def updateStatus_def
lemmas webrtc_defs = initialize_def createOffer_def createAnswer_def handleOffer_def
  handleAnswer_def addIceCandidate_def onRemoteStream_def onIceCandidate_def close_def
  new_WebRTCConnection_def new_RTCPeerConnection_def pc_createOffer_def pc_createAnswer_def
  setLocalDescription_def setRemoteDescription_def pc_addIceCandidate_def addTrack_def
  not_initialized_def
lemmas concrete_defs = ok_env_def denied_env_def relay_down_env_def joined_service_def
  idle_session_def room1_signal_def join_from_b_def answer_from_b_def candidate_from_b_def
  malformed_offer_def stray_offer_def candidate_signal_def
lemmas view_defs = engine_def remote_description_def applied_candidates_def

subsection \<open>Candidates\<close>

lemma candidate_before_description:
  assumes "webrtc s = Some w" and "peerConnection w = Some pc"
    and "remotePeerId s = Some (peer_id m)" and "signal_type m = IceCandidate"
    and "remoteDescription pc = None"
  shows "handleSignalMessage e m s = (s, [ConsoleError ''Error handling signal:''])"
  using assms
  by (simp add: handleSignalMessage_def on_ice_candidate_def addIceCandidate_def
        pc_addIceCandidate_def split: signal_data.splits)

lemma candidate_after_description:
  assumes "webrtc s = Some w" and "peerConnection w = Some pc"
    and "remotePeerId s = Some (peer_id m)" and "signal_type m = IceCandidate"
    and "signal_data m = IceCandidateInit c"
    and "remoteDescription pc \<noteq> None" and "iceCandidateAdded e = None"
  shows "handleSignalMessage e m s =
     (s\<lparr>webrtc := Some (w\<lparr>peerConnection := Some (pc\<lparr>remoteCandidates := remoteCandidates pc @ [c]\<rparr>)\<rparr>)\<rparr>, [])"
  using assms
  by (simp add: handleSignalMessage_def on_ice_candidate_def addIceCandidate_def
        pc_addIceCandidate_def)

lemma handleAnswer_candidates:
  "map_option remoteCandidates (peerConnection (snd (handleAnswer e d w))) =
   map_option remoteCandidates (peerConnection w)"
  by (simp add: handleAnswer_def setRemoteDescription_def
        split: option.splits sum.splits signal_data.splits)

lemma handleOffer_candidates:
  "map_option remoteCandidates (peerConnection (snd (handleOffer e d w))) =
   map_option remoteCandidates (peerConnection w)"
  by (simp add: handleOffer_def setRemoteDescription_def
        split: option.splits sum.splits signal_data.splits)

lemma createAnswer_candidates:
  "map_option remoteCandidates (peerConnection (snd (createAnswer e w))) =
   map_option remoteCandidates (peerConnection w)"
  by (simp add: createAnswer_def setLocalDescription_def pc_createAnswer_def
        split: option.splits sum.splits signal_data.splits)

lemma applied_candidates_eq:
  "webrtc s = Some w \<Longrightarrow> webrtc s' = Some w' \<Longrightarrow>
   map_option remoteCandidates (peerConnection w') = map_option remoteCandidates (peerConnection w) \<Longrightarrow>
   applied_candidates s' = applied_candidates s"
  by (auto simp: applied_candidates_def engine_def split: option.splits)

lemma on_answer_candidates:
  assumes "webrtc s = Some w"
  shows "applied_candidates (fst (snd (on_answer e a s))) = applied_candidates s"
proof (cases "Some (peer_id a) = remotePeerId s")
  case False
  with assms show ?thesis by (simp add: on_answer_def)
next
  case True
  obtain r w1 where h: "handleAnswer e (signal_data a) w = (r, w1)" by (cases "handleAnswer e (signal_data a) w")
  with handleAnswer_candidates [of e "signal_data a" w]
  have c: "map_option remoteCandidates (peerConnection w1) = map_option remoteCandidates (peerConnection w)"
    by simp
  have "webrtc (fst (snd (on_answer e a s))) = Some w1"
    using assms True h by (cases r) (simp_all add: on_answer_def updateStatus_def)
  from applied_candidates_eq [OF assms this c] show ?thesis .
qed

lemma on_offer_candidates:
  assumes "webrtc s = Some w"
  shows "applied_candidates (fst (snd (on_offer e a s))) = applied_candidates s"
proof -
  let ?s1 = "s\<lparr>remotePeerId := Some (peer_id a), isInitiator := False\<rparr>"
  have i: "initializeConnection e ?s1 = (Inr (), ?s1, [])"
    using assms by (simp add: initializeConnection_def)
  obtain r1 w1 where h1: "handleOffer e (signal_data a) w = (r1, w1)"
    by (cases "handleOffer e (signal_data a) w")
  obtain r2 w2 where h2: "createAnswer e w1 = (r2, w2)" by (cases "createAnswer e w1")
  from handleOffer_candidates [of e "signal_data a" w] h1
  have c1: "map_option remoteCandidates (peerConnection w1) = map_option remoteCandidates (peerConnection w)"
    by simp
  from createAnswer_candidates [of e w1] h2 c1
  have c2: "map_option remoteCandidates (peerConnection w2) = map_option remoteCandidates (peerConnection w)"
    by simp
  have "webrtc (fst (snd (on_offer e a s))) = Some w1 \<or> webrtc (fst (snd (on_offer e a s))) = Some w2"
    using assms i h1 h2
    by (cases r1; cases r2)
       (simp_all add: on_offer_def updateStatus_def split: prod.splits sum.splits)
  with applied_candidates_eq [OF assms _ c1] applied_candidates_eq [OF assms _ c2]
  show ?thesis by blast
qed

lemma description_adds_no_candidate:
  assumes "webrtc s = Some w"
    and "signal_type a = Answer \<or> signal_type a = Offer"
  shows "applied_candidates (fst (handleSignalMessage e a s)) = applied_candidates s"
proof -
  have "fst (handleSignalMessage e a s) =
      (if signal_type a = Answer then fst (snd (on_answer e a s)) else fst (snd (on_offer e a s)))"
    using assms(2) by (auto simp: handleSignalMessage_def split: prod.splits sum.splits)
  with on_answer_candidates [OF assms(1)] on_offer_candidates [OF assms(1)]
  show ?thesis by simp
qed

lemma candidates_in_order:
  assumes "remote_description s \<noteq> None" and "remotePeerId s = Some p"
    and "iceCandidateAdded e = None"
  shows "applied_candidates (handle_all e (map (candidate_signal r p tgt) cs) s) =
           applied_candidates s @ cs"
  using assms
proof (induction cs arbitrary: s)
  case Nil
  then show ?case by simp
next
  case (Cons c cs)
  from Cons.prems(1) obtain w pc where w: "webrtc s = Some w" and pc: "peerConnection w = Some pc"
    and rd: "remoteDescription pc \<noteq> None"
    by (auto simp: engine_def remote_description_def applied_candidates_def split: option.splits)
  let ?s' = "s\<lparr>webrtc := Some (w\<lparr>peerConnection := Some (pc\<lparr>remoteCandidates := remoteCandidates pc @ [c]\<rparr>)\<rparr>)\<rparr>"
  have step: "handleSignalMessage e (candidate_signal r p tgt c) s = (?s', [])"
    using w pc rd Cons.prems(2,3)
    by (intro candidate_after_description) (simp_all add: candidate_signal_def)
  have "applied_candidates (handle_all e (map (candidate_signal r p tgt) cs) ?s') =
          applied_candidates ?s' @ cs"
    using rd Cons.prems(2,3) by (intro Cons.IH) (simp_all add: engine_def remote_description_def applied_candidates_def)
  with step w pc show ?case by (simp add: engine_def remote_description_def applied_candidates_def)
qed


lemma offering_session_value:
  "offering_session =
     idle_session\<lparr>webrtc := Some
        \<lparr>peerConnection = Some
           \<lparr>senders = [0], localDescription = Some (SessionDescription SdpOffer ''v=0 offer''),
            remoteDescription = None, remoteCandidates = []\<rparr>,
         localStream = Some (MediaStream [0]), remoteStream = None,
         onRemoteStreamCallback = Some RemoteAudioSink,
         onIceCandidateCallback = Some CandidateForwarder\<rparr>,
       remotePeerId := Some ''peer_b'', isInitiator := True,
       statusText := ''Peer joined! Ready to talk'', statusType := Connected\<rparr>"
  unfolding offering_session_def
  by (simp add: handler_defs webrtc_defs concrete_defs sendSignal_def truthy_def Let_def)

lemma connected_session_value:
  "connected_session =
     idle_session\<lparr>webrtc := Some
        \<lparr>peerConnection = Some
           \<lparr>senders = [0], localDescription = Some (SessionDescription SdpOffer ''v=0 offer''),
            remoteDescription = Some (SessionDescription SdpAnswer ''v=0 answer''),
            remoteCandidates = []\<rparr>,
         localStream = Some (MediaStream [0]), remoteStream = None,
         onRemoteStreamCallback = Some RemoteAudioSink,
         onIceCandidateCallback = Some CandidateForwarder\<rparr>,
       remotePeerId := Some ''peer_b'', isInitiator := True,
       statusText := ''Connected! Ready to talk'', statusType := Connected\<rparr>"
  unfolding connected_session_def offering_session_value
  by (simp add: handler_defs webrtc_defs concrete_defs sendSignal_def truthy_def Let_def)

text \<open>
  C4, as the code has it. The handler has no candidate buffer. An \<open>ice-candidate\<close> signal
  from the bound remote peer is handed to the media engine at once. While the engine has no
  remote description it rejects the candidate: the handler logs the error, the session is
  unchanged and the candidate is gone. Once a remote description is set and the engine
  accepts, the candidate is appended after those applied before, so candidates handled one
  after another are applied in the order received. Applying a description later (an answer
  or an offer) adds no candidate to the engine.
\<close>

theorem candidate_handed_to_engine_at_once:
  assumes "webrtc s = Some w" and "peerConnection w = Some pc"
    and "remotePeerId s = Some (peer_id m)" and "signal_type m = IceCandidate"
    and "signal_data m = IceCandidateInit c"
  shows "(remoteDescription pc = None \<longrightarrow>
            handleSignalMessage e m s = (s, [ConsoleError ''Error handling signal:''])) \<and>
         (remoteDescription pc \<noteq> None \<longrightarrow> iceCandidateAdded e = None \<longrightarrow>
            handleSignalMessage e m s =
              (s\<lparr>webrtc := Some (w\<lparr>peerConnection :=
                    Some (pc\<lparr>remoteCandidates := remoteCandidates pc @ [c]\<rparr>)\<rparr>)\<rparr>, []) \<and>
            applied_candidates (handle_all e (map (candidate_signal r (peer_id m) tgt) cs) s) =
              applied_candidates s @ cs) \<and>
         (signal_type a = Answer \<or> signal_type a = Offer \<longrightarrow>
            applied_candidates (fst (handleSignalMessage e' a s)) = applied_candidates s)"
proof (intro conjI impI)
  assume "remoteDescription pc = None"
  with assms show "handleSignalMessage e m s = (s, [ConsoleError ''Error handling signal:''])"
    by (intro candidate_before_description)
next
  assume rd: "remoteDescription pc \<noteq> None" and ok: "iceCandidateAdded e = None"
  with assms show "handleSignalMessage e m s =
      (s\<lparr>webrtc := Some (w\<lparr>peerConnection :=
            Some (pc\<lparr>remoteCandidates := remoteCandidates pc @ [c]\<rparr>)\<rparr>)\<rparr>, [])"
    by (intro candidate_after_description)
  from assms(1,2) rd have "remote_description s \<noteq> None"
    by (simp add: remote_description_def engine_def)
  from candidates_in_order [OF this assms(3) ok]
  show "applied_candidates (handle_all e (map (candidate_signal r (peer_id m) tgt) cs) s) =
      applied_candidates s @ cs" .
next
  assume "signal_type a = Answer \<or> signal_type a = Offer"
  with assms(1) show "applied_candidates (fst (handleSignalMessage e' a s)) = applied_candidates s"
    by (rule description_adds_no_candidate)
qed

theorem candidate_handed_to_engine_at_once_witness:
  "handleSignalMessage ok_env candidate_from_b offering_session =
     (offering_session, [ConsoleError ''Error handling signal:'']) \<and>
   applied_candidates (fst (handleSignalMessage ok_env answer_from_b offering_session)) = [] \<and>
   applied_candidates
     (handle_all ok_env
        (map (candidate_signal ''room-1'' ''peer_b'' (Some ''peer_a'')) [''candidate:1'', ''candidate:2''])
        connected_session) = [''candidate:1'', ''candidate:2'']"
proof -
  let ?w = "\<lparr>peerConnection = Some
           \<lparr>senders = [0], localDescription = Some (SessionDescription SdpOffer ''v=0 offer''),
            remoteDescription = None, remoteCandidates = []\<rparr>,
         localStream = Some (MediaStream [0]), remoteStream = None,
         onRemoteStreamCallback = Some RemoteAudioSink,
         onIceCandidateCallback = Some CandidateForwarder\<rparr>"
  let ?pc = "\<lparr>senders = [0], localDescription = Some (SessionDescription SdpOffer ''v=0 offer''),
            remoteDescription = None, remoteCandidates = []\<rparr>"
  let ?w2 = "?w\<lparr>peerConnection := Some (?pc\<lparr>remoteDescription := Some (SessionDescription SdpAnswer ''v=0 answer'')\<rparr>)\<rparr>"
  let ?pc2 = "?pc\<lparr>remoteDescription := Some (SessionDescription SdpAnswer ''v=0 answer'')\<rparr>"
  have a: "webrtc offering_session = Some ?w" "peerConnection ?w = Some ?pc"
    "remotePeerId offering_session = Some (peer_id candidate_from_b)"
    "signal_type candidate_from_b = IceCandidate"
    "signal_data candidate_from_b = IceCandidateInit ''candidate:1''"
    "remoteDescription ?pc = None" "signal_type answer_from_b = Answer"
    "applied_candidates offering_session = []"
    by (simp_all add: offering_session_value concrete_defs view_defs)
  have b: "webrtc connected_session = Some ?w2" "peerConnection ?w2 = Some ?pc2"
    "remotePeerId connected_session = Some (peer_id candidate_from_b)"
    "remoteDescription ?pc2 \<noteq> None" "iceCandidateAdded ok_env = None"
    "applied_candidates connected_session = []" "peer_id candidate_from_b = ''peer_b''"
    by (simp_all add: connected_session_value concrete_defs view_defs)
  from candidate_handed_to_engine_at_once [OF a(1-5), where a = answer_from_b and e = ok_env
      and e' = ok_env] a(6-8)
  have 1: "handleSignalMessage ok_env candidate_from_b offering_session =
             (offering_session, [ConsoleError ''Error handling signal:''])"
    and 2: "applied_candidates (fst (handleSignalMessage ok_env answer_from_b offering_session)) = []"
    by simp_all
  from candidate_handed_to_engine_at_once [OF b(1-3) a(4,5), where e = ok_env
      and r = "''room-1''" and tgt = "Some ''peer_a''" and cs = "[''candidate:1'', ''candidate:2'']"]
    b(4-7)
  have 3: "applied_candidates
     (handle_all ok_env
        (map (candidate_signal ''room-1'' ''peer_b'' (Some ''peer_a'')) [''candidate:1'', ''candidate:2''])
        connected_session) = [''candidate:1'', ''candidate:2'']"
    by simp
  from 1 2 3 show ?thesis by simp
qed

text \<open>
  C4 as stated fails: the session that has sent its offer to \<open>peer_b\<close> and has no remote
  description yet receives a candidate from \<open>peer_b\<close>; the handler logs an error and the
  session is as before. When the answer of \<open>peer_b\<close> then sets the remote description, the
  engine still holds no candidate.
\<close>

theorem early_candidate_dropped_counterexample:
  "remotePeerId offering_session = Some ''peer_b'' \<and>
   remote_description offering_session = None \<and>
   handleSignalMessage ok_env candidate_from_b offering_session =
     (offering_session, [ConsoleError ''Error handling signal:'']) \<and>
   remote_description (fst (handleSignalMessage ok_env answer_from_b offering_session)) =
     Some (SessionDescription SdpAnswer ''v=0 answer'') \<and>
   applied_candidates (fst (handleSignalMessage ok_env answer_from_b offering_session)) = []"
  unfolding offering_session_value
  by (simp add: handler_defs webrtc_defs concrete_defs view_defs)

subsection \<open>Signals from another sender\<close>

lemma other_sender_ignored:
  assumes "truthy (remotePeerId s)" and "Some (peer_id m) \<noteq> remotePeerId s"
    and "signal_type m \<noteq> Offer"
  shows "handleSignalMessage e m s = (s, [])"
  using assms
  by (cases "signal_type m")
     (auto simp: handleSignalMessage_def on_join_def on_answer_def on_ice_candidate_def
        on_leave_def split: option.splits)

text \<open>
  C3 at the input where the code departs from it. The session is bound to \<open>peer_b\<close>, is
  the initiator and holds the answer of \<open>peer_b\<close>. An \<open>offer\<close> from \<open>peer_c\<close> rebinds
  the remote peer to \<open>peer_c\<close>, clears the initiator flag, replaces the remote description
  of the existing engine by the offer of \<open>peer_c\<close> and publishes an answer addressed to
  \<open>peer_c\<close>. Signals of the four other kinds from another sender are ignored
  (\<open>other_sender_ignored\<close>).
\<close>

theorem stray_offer_rebinds:
  "remotePeerId connected_session = Some ''peer_b'' \<and>
   isInitiator connected_session \<and>
   remote_description connected_session = Some (SessionDescription SdpAnswer ''v=0 answer'') \<and>
   peer_id stray_offer = ''peer_c'' \<and>
   remotePeerId (fst (handleSignalMessage ok_env stray_offer connected_session)) = Some ''peer_c'' \<and>
   isInitiator (fst (handleSignalMessage ok_env stray_offer connected_session)) = False \<and>
   remote_description (fst (handleSignalMessage ok_env stray_offer connected_session)) =
     Some (SessionDescription SdpOffer ''v=0 other'') \<and>
   snd (handleSignalMessage ok_env stray_offer connected_session) =
     [SignalingInsert (room1_signal ''peer_a'' (Some ''peer_c'') Answer
        (SessionDescription SdpAnswer ''v=0 answer'')),
      ChannelSend ''room:room-1'' (room1_signal ''peer_a'' (Some ''peer_c'') Answer
        (SessionDescription SdpAnswer ''v=0 answer''))]"
  unfolding connected_session_value
  by (simp add: handler_defs webrtc_defs concrete_defs view_defs sendSignal_def truthy_def Let_def)

subsection \<open>Failure of the media engine\<close>

lemma initialize_failed_unready:
  "fst (initialize e new_WebRTCConnection) = Inl err \<Longrightarrow>
   peerConnection (fst (snd (initialize e new_WebRTCConnection))) = None \<and>
   snd (snd (initialize e new_WebRTCConnection)) = [ConsoleError ''Error initializing WebRTC:'']"
  by (auto simp: initialize_def new_WebRTCConnection_def Let_def split: sum.splits option.splits)

lemma initializeConnection_failed:
  assumes "webrtc s = None" and "fst (initialize e new_WebRTCConnection) = Inl err"
  shows "initializeConnection e s =
     (Inl err, s\<lparr>webrtc := Some (fst (snd (initialize e new_WebRTCConnection)))\<rparr>,
      [ConsoleError ''Error initializing WebRTC:''])"
proof -
  obtain r w t where i: "initialize e new_WebRTCConnection = (r, w, t)"
    by (cases "initialize e new_WebRTCConnection")
  with assms(2) initialize_failed_unready [OF assms(2)]
  have "r = Inl err" "t = [ConsoleError ''Error initializing WebRTC:'']" by simp_all
  with i assms(1) show ?thesis by (simp add: initializeConnection_def)
qed

text \<open>
  C5, as the code has it. When \<open>initialize()\<close> throws while a \<open>join\<close> (no peer bound)
  or an \<open>offer\<close> is handled by a session with no media engine yet, the negotiation stops:
  nothing is published, the failure is written to the console by \<open>initialize()\<close> and by
  the handler, and the handler returns normally. The session does not return to idle: the
  sender stays bound as remote peer, the role flag stays as the case set it, and \<open>webrtc\<close>
  keeps the reference to the connection object whose peer connection is null. Nothing is
  retried: with that reference in place a later \<open>initializeConnection()\<close> returns at once.
\<close>

theorem media_failure_keeps_peer_bound:
  assumes "webrtc s = None"
    and "fst (initialize e new_WebRTCConnection) = Inl err"
    and "signal_type m = Offer \<or> (signal_type m = Join \<and> \<not> truthy (remotePeerId s))"
  shows "remotePeerId (fst (handleSignalMessage e m s)) = Some (peer_id m) \<and>
         isInitiator (fst (handleSignalMessage e m s)) = (signal_type m = Join) \<and>
         webrtc (fst (handleSignalMessage e m s)) =
           Some (fst (snd (initialize e new_WebRTCConnection))) \<and>
         engine (fst (handleSignalMessage e m s)) = None \<and>
         snd (handleSignalMessage e m s) =
           [ConsoleError ''Error initializing WebRTC:'', ConsoleError ''Error handling signal:''] \<and>
         initializeConnection e' (fst (handleSignalMessage e m s)) =
           (Inr (), fst (handleSignalMessage e m s), [])"
proof -
  let ?w = "fst (snd (initialize e new_WebRTCConnection))"
  have pcn: "peerConnection ?w = None"
    using initialize_failed_unready [OF assms(2)] by simp
  from assms(3) show ?thesis
  proof
    assume o: "signal_type m = Offer"
    let ?s1 = "s\<lparr>remotePeerId := Some (peer_id m), isInitiator := False\<rparr>"
    have "initializeConnection e ?s1 =
        (Inl err, ?s1\<lparr>webrtc := Some ?w\<rparr>, [ConsoleError ''Error initializing WebRTC:''])"
      using assms(1,2) by (intro initializeConnection_failed) simp_all
    with o pcn show ?thesis
      by (simp add: handleSignalMessage_def on_offer_def initializeConnection_def engine_def)
  next
    assume j: "signal_type m = Join \<and> \<not> truthy (remotePeerId s)"
    let ?s1 = "updateStatus ''Peer joined! Ready to talk'' Connected
                 (s\<lparr>remotePeerId := Some (peer_id m), isInitiator := True\<rparr>)"
    have "initializeConnection e ?s1 =
        (Inl err, ?s1\<lparr>webrtc := Some ?w\<rparr>, [ConsoleError ''Error initializing WebRTC:''])"
      using assms(1,2) by (intro initializeConnection_failed) (simp_all add: updateStatus_def)
    with j pcn show ?thesis
      by (simp add: handleSignalMessage_def on_join_def initializeConnection_def engine_def
            updateStatus_def)
  qed
qed

theorem media_failure_keeps_peer_bound_witness:
  "webrtc idle_session = None \<and>
   fst (initialize denied_env new_WebRTCConnection) = Inl (External ''NotAllowedError'') \<and>
   signal_type join_from_b = Join \<and>
   truthy (remotePeerId idle_session) = False \<and>
   remotePeerId (fst (handleSignalMessage denied_env join_from_b idle_session)) = Some ''peer_b'' \<and>
   isInitiator (fst (handleSignalMessage denied_env join_from_b idle_session)) = True \<and>
   engine (fst (handleSignalMessage denied_env join_from_b idle_session)) = None \<and>
   snd (handleSignalMessage denied_env join_from_b idle_session) =
     [ConsoleError ''Error initializing WebRTC:'', ConsoleError ''Error handling signal:''] \<and>
   initializeConnection ok_env (fst (handleSignalMessage denied_env join_from_b idle_session)) =
     (Inr (), fst (handleSignalMessage denied_env join_from_b idle_session), [])"
proof -
  have h: "webrtc idle_session = None"
    "fst (initialize denied_env new_WebRTCConnection) = Inl (External ''NotAllowedError'')"
    "signal_type join_from_b = Join" "\<not> truthy (remotePeerId idle_session)"
    "peer_id join_from_b = ''peer_b''"
    by (simp_all add: concrete_defs initialize_def truthy_def)
  from h(3,4) have k: "signal_type join_from_b = Offer \<or>
      (signal_type join_from_b = Join \<and> \<not> truthy (remotePeerId idle_session))" by simp
  from media_failure_keeps_peer_bound [OF h(1,2) k, of ok_env] h show ?thesis by simp
qed

text \<open>
  C5 as stated fails: the idle session handles the \<open>join\<close> of \<open>peer_b\<close> while the
  microphone is refused. Afterwards \<open>peer_b\<close> is bound, the initiator flag is set and
  \<open>webrtc\<close> refers to an uninitialised connection; the failure went to the console.
\<close>

theorem media_failure_counterexample:
  "remotePeerId idle_session = None \<and> webrtc idle_session = None \<and>
   remotePeerId (fst (handleSignalMessage denied_env join_from_b idle_session)) = Some ''peer_b'' \<and>
   webrtc (fst (handleSignalMessage denied_env join_from_b idle_session)) = Some new_WebRTCConnection \<and>
   isInitiator (fst (handleSignalMessage denied_env join_from_b idle_session)) = True \<and>
   snd (handleSignalMessage denied_env join_from_b idle_session) =
     [ConsoleError ''Error initializing WebRTC:'', ConsoleError ''Error handling signal:'']"
  by (simp add: handler_defs initialize_def concrete_defs truthy_def)

subsection \<open>Malformed payloads\<close>

lemma malformed_description_rejected:
  "\<not> payload_matches Offer d \<Longrightarrow> fst (handleOffer e d w) \<noteq> Inr () \<and> snd (handleOffer e d w) = w"
  by (auto simp: payload_matches_def handleOffer_def setRemoteDescription_def
        split: signal_data.splits option.splits)

lemma initializeConnection_responder:
  assumes "\<not> isInitiator s"
  shows "broadcasts (snd (snd (initializeConnection e s))) = [] \<and>
     remotePeerId (fst (snd (initializeConnection e s))) = remotePeerId s \<and>
     isInitiator (fst (snd (initializeConnection e s))) = isInitiator s \<and>
     statusText (fst (snd (initializeConnection e s))) = statusText s \<and>
     statusType (fst (snd (initializeConnection e s))) = statusType s \<and>
     signaling (fst (snd (initializeConnection e s))) = signaling s \<and>
     (fst (initializeConnection e s) = Inr () \<longrightarrow>
        snd (snd (initializeConnection e s)) = [] \<and>
        webrtc (fst (snd (initializeConnection e s))) \<noteq> None) \<and>
     (fst (initializeConnection e s) \<noteq> Inr () \<longrightarrow>
        snd (snd (initializeConnection e s)) = [ConsoleError ''Error initializing WebRTC:''])"
  using assms
  by (auto simp: initializeConnection_def initialize_def Let_def
        split: option.splits sum.splits prod.splits)

lemma malformed_offer_outcome:
  assumes "signal_type m = Offer" and "\<not> payload_matches Offer (signal_data m)"
  shows "remotePeerId (fst (handleSignalMessage e m s)) = Some (peer_id m) \<and>
         isInitiator (fst (handleSignalMessage e m s)) = False \<and>
         statusText (fst (handleSignalMessage e m s)) = statusText s \<and>
         statusType (fst (handleSignalMessage e m s)) = statusType s \<and>
         broadcasts (snd (handleSignalMessage e m s)) = [] \<and>
         (snd (handleSignalMessage e m s) = [ConsoleError ''Error handling signal:''] \<or>
          snd (handleSignalMessage e m s) =
            [ConsoleError ''Error initializing WebRTC:'', ConsoleError ''Error handling signal:''])"
proof -
  let ?s1 = "s\<lparr>remotePeerId := Some (peer_id m), isInitiator := False\<rparr>"
  obtain r s2 t where i: "initializeConnection e ?s1 = (r, s2, t)"
    by (cases "initializeConnection e ?s1")
  have ni: "\<not> isInitiator ?s1" by simp
  note f = initializeConnection_responder [OF ni, of e, unfolded i, simplified]
  show ?thesis
  proof (cases r)
    case (Inl err)
    with i f assms(1) show ?thesis
      by (simp add: handleSignalMessage_def on_offer_def)
  next
    case (Inr u)
    with f obtain w where w: "webrtc s2 = Some w" and t: "t = []" by auto
    obtain r1 w1 where h: "handleOffer e (signal_data m) w = (r1, w1)"
      by (cases "handleOffer e (signal_data m) w")
    with malformed_description_rejected [OF assms(2), of e w] obtain err where "r1 = Inl err"
      by (cases r1) auto
    with Inr i f assms(1) w t h show ?thesis
      by (simp add: handleSignalMessage_def on_offer_def)
  qed
qed

lemma malformed_answer_outcome:
  assumes "signal_type m = Answer" and "\<not> payload_matches Answer (signal_data m)"
  shows "handleSignalMessage e m s =
     (s, if webrtc s \<noteq> None \<and> Some (peer_id m) = remotePeerId s
         then [ConsoleError ''Error handling signal:''] else [])"
  using assms
  by (auto simp: handleSignalMessage_def on_answer_def handleAnswer_def setRemoteDescription_def
        payload_matches_def split: option.splits signal_data.splits)

lemma malformed_candidate_outcome:
  assumes "signal_type m = IceCandidate" and "\<not> payload_matches IceCandidate (signal_data m)"
  shows "handleSignalMessage e m s =
     (s, if webrtc s \<noteq> None \<and> Some (peer_id m) = remotePeerId s
         then [ConsoleError ''Error handling signal:''] else [])"
  using assms
  by (auto simp: handleSignalMessage_def on_ice_candidate_def addIceCandidate_def
        pc_addIceCandidate_def payload_matches_def split: option.splits signal_data.splits)

lemma join_leave_ignore_payload:
  assumes "signal_type m = Join \<or> signal_type m = Leave"
  shows "handleSignalMessage e (m\<lparr>signal_data := d\<rparr>) s = handleSignalMessage e m s"
  using assms by (auto simp: handleSignalMessage_def on_join_def on_leave_def)

text \<open>
  C6, as the code has it. The handler does not look at the shape of a payload and never
  throws. A malformed \<open>offer\<close> binds its sender as remote peer and clears the initiator
  flag before the payload is used; the media engine then rejects it (or its initialisation
  fails), the handler logs the error, nothing is published and the status is unchanged. A
  malformed \<open>answer\<close> or \<open>ice-candidate\<close> leaves the session unchanged, with an error
  logged when it comes from the bound peer of a session that has a connection object. For
  \<open>join\<close> and \<open>leave\<close> the payload is never read: the signal is handled as if it
  carried the empty object.
\<close>

theorem malformed_payload_reaches_state_machine:
  assumes "\<not> payload_matches (signal_type m) (signal_data m)"
  shows "(signal_type m = Offer \<longrightarrow>
            remotePeerId (fst (handleSignalMessage e m s)) = Some (peer_id m) \<and>
            isInitiator (fst (handleSignalMessage e m s)) = False \<and>
            statusText (fst (handleSignalMessage e m s)) = statusText s \<and>
            statusType (fst (handleSignalMessage e m s)) = statusType s \<and>
            broadcasts (snd (handleSignalMessage e m s)) = [] \<and>
            (snd (handleSignalMessage e m s) = [ConsoleError ''Error handling signal:''] \<or>
             snd (handleSignalMessage e m s) =
               [ConsoleError ''Error initializing WebRTC:'', ConsoleError ''Error handling signal:''])) \<and>
         (signal_type m = Answer \<or> signal_type m = IceCandidate \<longrightarrow>
            handleSignalMessage e m s =
              (s, if webrtc s \<noteq> None \<and> Some (peer_id m) = remotePeerId s
                  then [ConsoleError ''Error handling signal:''] else [])) \<and>
         (signal_type m = Join \<or> signal_type m = Leave \<longrightarrow>
            handleSignalMessage e m s = handleSignalMessage e (m\<lparr>signal_data := PlainObject []\<rparr>) s)"
proof -
  have 1: "signal_type m = Offer \<longrightarrow>
            remotePeerId (fst (handleSignalMessage e m s)) = Some (peer_id m) \<and>
            isInitiator (fst (handleSignalMessage e m s)) = False \<and>
            statusText (fst (handleSignalMessage e m s)) = statusText s \<and>
            statusType (fst (handleSignalMessage e m s)) = statusType s \<and>
            broadcasts (snd (handleSignalMessage e m s)) = [] \<and>
            (snd (handleSignalMessage e m s) = [ConsoleError ''Error handling signal:''] \<or>
             snd (handleSignalMessage e m s) =
               [ConsoleError ''Error initializing WebRTC:'', ConsoleError ''Error handling signal:''])"
  proof
    assume o: "signal_type m = Offer"
    with assms have "\<not> payload_matches Offer (signal_data m)" by simp
    from malformed_offer_outcome [OF o this, of e s]
    show "remotePeerId (fst (handleSignalMessage e m s)) = Some (peer_id m) \<and>
            isInitiator (fst (handleSignalMessage e m s)) = False \<and>
            statusText (fst (handleSignalMessage e m s)) = statusText s \<and>
            statusType (fst (handleSignalMessage e m s)) = statusType s \<and>
            broadcasts (snd (handleSignalMessage e m s)) = [] \<and>
            (snd (handleSignalMessage e m s) = [ConsoleError ''Error handling signal:''] \<or>
             snd (handleSignalMessage e m s) =
               [ConsoleError ''Error initializing WebRTC:'', ConsoleError ''Error handling signal:''])" .
  qed
  have 2: "signal_type m = Answer \<or> signal_type m = IceCandidate \<longrightarrow>
            handleSignalMessage e m s =
              (s, if webrtc s \<noteq> None \<and> Some (peer_id m) = remotePeerId s
                  then [ConsoleError ''Error handling signal:''] else [])"
    using assms malformed_answer_outcome [of m e s] malformed_candidate_outcome [of m e s]
    by auto
  have 3: "signal_type m = Join \<or> signal_type m = Leave \<longrightarrow>
            handleSignalMessage e m s = handleSignalMessage e (m\<lparr>signal_data := PlainObject []\<rparr>) s"
    using join_leave_ignore_payload [of m e "PlainObject []" s] by simp
  show ?thesis by (rule conjI [OF 1 conjI [OF 2 3]])
qed

theorem malformed_payload_reaches_state_machine_witness:
  "payload_matches (signal_type malformed_offer) (signal_data malformed_offer) = False \<and>
   signal_type malformed_offer = Offer \<and>
   remotePeerId (fst (handleSignalMessage ok_env malformed_offer idle_session)) = Some ''peer_b'' \<and>
   isInitiator (fst (handleSignalMessage ok_env malformed_offer idle_session)) = False \<and>
   statusType (fst (handleSignalMessage ok_env malformed_offer idle_session)) = Connecting \<and>
   broadcasts (snd (handleSignalMessage ok_env malformed_offer idle_session)) = [] \<and>
   handleSignalMessage ok_env (answer_from_b\<lparr>signal_data := PlainObject ''junk''\<rparr>) offering_session =
     (offering_session, [ConsoleError ''Error handling signal:'']) \<and>
   handleSignalMessage ok_env (join_from_b\<lparr>signal_data := PlainObject ''junk''\<rparr>) idle_session =
     handleSignalMessage ok_env join_from_b idle_session"
proof -
  have a: "\<not> payload_matches (signal_type malformed_offer) (signal_data malformed_offer)"
    "signal_type malformed_offer = Offer" "peer_id malformed_offer = ''peer_b''"
    "statusType idle_session = Connecting"
    by (simp_all add: concrete_defs payload_matches_def)
  let ?ans = "answer_from_b\<lparr>signal_data := PlainObject ''junk''\<rparr>"
  have b: "\<not> payload_matches (signal_type ?ans) (signal_data ?ans)" "signal_type ?ans = Answer"
    "webrtc offering_session \<noteq> None" "Some (peer_id ?ans) = remotePeerId offering_session"
    by (simp_all add: concrete_defs payload_matches_def offering_session_value)
  let ?join = "join_from_b\<lparr>signal_data := PlainObject ''junk''\<rparr>"
  have c: "\<not> payload_matches (signal_type ?join) (signal_data ?join)" "signal_type ?join = Join"
    "?join\<lparr>signal_data := PlainObject []\<rparr> = join_from_b"
    by (simp_all add: concrete_defs payload_matches_def)
  from malformed_payload_reaches_state_machine [OF a(1), of ok_env idle_session] a
  have 1: "remotePeerId (fst (handleSignalMessage ok_env malformed_offer idle_session)) = Some ''peer_b''"
    "isInitiator (fst (handleSignalMessage ok_env malformed_offer idle_session)) = False"
    "statusType (fst (handleSignalMessage ok_env malformed_offer idle_session)) = Connecting"
    "broadcasts (snd (handleSignalMessage ok_env malformed_offer idle_session)) = []"
    by simp_all
  from malformed_payload_reaches_state_machine [OF b(1), of ok_env offering_session] b
  have 2: "handleSignalMessage ok_env ?ans offering_session =
     (offering_session, [ConsoleError ''Error handling signal:''])"
    by simp
  from malformed_payload_reaches_state_machine [OF c(1), of ok_env idle_session] c
  have 3: "handleSignalMessage ok_env ?join idle_session =
     handleSignalMessage ok_env join_from_b idle_session"
    by simp
  from a 1 2 3 show ?thesis by simp
qed

text \<open>
  C6 as stated fails: the idle session handles an \<open>offer\<close> of \<open>peer_b\<close> whose payload
  is not a session description. An error is logged, but \<open>peer_b\<close> is now bound and a media
  engine has been created.
\<close>

theorem malformed_offer_binds_counterexample:
  "payload_matches (signal_type malformed_offer) (signal_data malformed_offer) = False \<and>
   remotePeerId idle_session = None \<and> webrtc idle_session = None \<and>
   remotePeerId (fst (handleSignalMessage ok_env malformed_offer idle_session)) = Some ''peer_b'' \<and>
   engine (fst (handleSignalMessage ok_env malformed_offer idle_session)) =
     Some \<lparr>senders = [0], localDescription = None, remoteDescription = None, remoteCandidates = []\<rparr> \<and>
   fst (handleSignalMessage ok_env malformed_offer idle_session) \<noteq> idle_session \<and>
   snd (handleSignalMessage ok_env malformed_offer idle_session) =
     [ConsoleError ''Error handling signal:'']"
  by (simp add: handler_defs webrtc_defs concrete_defs view_defs payload_matches_def)

section \<open>Properties of two sessions and the relay\<close>

text \<open>
  The three handler steps of a negotiation, from sessions and collaborators described by what
  the step reads.
\<close>

lemma join_at_idle:
  assumes "webrtc A = None" and "\<not> truthy (remotePeerId A)"
    and "roomId (signaling A) = Some r" and "r \<noteq> []" and "channel (signaling A) = Some tp"
    and "peer_id m \<noteq> []" and "signal_type m = Join"
    and "userMedia e = Inr st" and "newPeerConnection e = None" and "offerCreated e = Inr off"
    and "localDescriptionSet e = None" and "signalingInserted e = Done" and "channelSent e = Done"
  shows "handleSignalMessage e m A =
    (A\<lparr>remotePeerId := Some (peer_id m), isInitiator := True,
        statusText := ''Peer joined! Ready to talk'', statusType := Connected,
        webrtc := Some
          \<lparr>peerConnection = Some
             ((fold addTrack (getTracks st) new_RTCPeerConnection)
                \<lparr>localDescription := Some (SessionDescription SdpOffer off)\<rparr>),
           localStream = Some st, remoteStream = None,
           onRemoteStreamCallback = Some RemoteAudioSink,
           onIceCandidateCallback = Some CandidateForwarder\<rparr>\<rparr>,
     [SignalingInsert
        \<lparr>room_id = r, peer_id = peerId (signaling A), target_peer_id = Some (peer_id m),
         signal_type = Offer, signal_data = SessionDescription SdpOffer off\<rparr>,
      ChannelSend tp
        \<lparr>room_id = r, peer_id = peerId (signaling A), target_peer_id = Some (peer_id m),
         signal_type = Offer, signal_data = SessionDescription SdpOffer off\<rparr>])"
  using assms
  by (simp add: handleSignalMessage_def on_join_def initializeConnection_def updateStatus_def
        initialize_def createOffer_def onRemoteStream_def onIceCandidate_def
        new_WebRTCConnection_def pc_createOffer_def setLocalDescription_def
        sendSignal_def truthy_def Let_def)

lemma offer_at_idle:
  assumes "webrtc B = None"
    and "roomId (signaling B) = Some r" and "r \<noteq> []" and "channel (signaling B) = Some tp"
    and "signal_type m = Offer" and "signal_data m = SessionDescription ty off"
    and "userMedia e = Inr st" and "newPeerConnection e = None" and "answerCreated e = Inr ans"
    and "localDescriptionSet e = None" and "remoteDescriptionSet e = None"
    and "signalingInserted e = Done" and "channelSent e = Done"
  shows "handleSignalMessage e m B =
    (B\<lparr>remotePeerId := Some (peer_id m), isInitiator := False,
        webrtc := Some
          \<lparr>peerConnection = Some
             ((fold addTrack (getTracks st) new_RTCPeerConnection)
                \<lparr>remoteDescription := Some (SessionDescription ty off),
                  localDescription := Some (SessionDescription SdpAnswer ans)\<rparr>),
           localStream = Some st, remoteStream = None,
           onRemoteStreamCallback = Some RemoteAudioSink,
           onIceCandidateCallback = Some CandidateForwarder\<rparr>,
        statusText := ''Connected! Ready to talk'', statusType := Connected\<rparr>,
     [SignalingInsert
        \<lparr>room_id = r, peer_id = peerId (signaling B), target_peer_id = Some (peer_id m),
         signal_type = Answer, signal_data = SessionDescription SdpAnswer ans\<rparr>,
      ChannelSend tp
        \<lparr>room_id = r, peer_id = peerId (signaling B), target_peer_id = Some (peer_id m),
         signal_type = Answer, signal_data = SessionDescription SdpAnswer ans\<rparr>])"
  using assms
  by (simp add: handleSignalMessage_def on_offer_def initializeConnection_def updateStatus_def
        initialize_def handleOffer_def createAnswer_def onRemoteStream_def onIceCandidate_def
        new_WebRTCConnection_def pc_createAnswer_def setLocalDescription_def
        setRemoteDescription_def sendSignal_def truthy_def Let_def)

lemma answer_when_offering:
  assumes "webrtc A = Some w" and "peerConnection w = Some pc"
    and "remotePeerId A = Some (peer_id m)"
    and "signal_type m = Answer" and "signal_data m = SessionDescription ty ans"
    and "remoteDescriptionSet e = None"
  shows "handleSignalMessage e m A =
    (A\<lparr>webrtc := Some (w\<lparr>peerConnection :=
           Some (pc\<lparr>remoteDescription := Some (SessionDescription ty ans)\<rparr>)\<rparr>),
        statusText := ''Connected! Ready to talk'', statusType := Connected\<rparr>, [])"
  using assms
  by (simp add: handleSignalMessage_def on_answer_def updateStatus_def handleAnswer_def
        setRemoteDescription_def)

lemma deliver_own: "peer_id m = peerId (signaling s) \<Longrightarrow> deliver e tp m s = (s, [])"
  by (simp add: deliver_def broadcast_listener_def)

lemma deliver_other:
  "channel (signaling s) = Some tp \<Longrightarrow> peer_id m \<noteq> peerId (signaling s) \<Longrightarrow>
   onMessageCallback (signaling s) = Some cb \<Longrightarrow>
   deliver e tp m s = handleSignalMessage e m s"
  by (simp add: deliver_def broadcast_listener_def)

lemma handshake:
  assumes A: "webrtc A = None" "\<not> truthy (remotePeerId A)" "roomId (signaling A) = Some r"
      "channel (signaling A) = Some tp" "onMessageCallback (signaling A) = Some cbA"
    and B: "webrtc B = None" "roomId (signaling B) = Some r"
      "channel (signaling B) = Some tp" "onMessageCallback (signaling B) = Some cbB"
    and r: "r \<noteq> []"
    and ids: "peerId (signaling A) \<noteq> peerId (signaling B)" "peerId (signaling B) \<noteq> []"
    and m: "signal_type m = Join" "peer_id m = peerId (signaling B)"
    and eA: "userMedia eA = Inr stA" "newPeerConnection eA = None" "offerCreated eA = Inr off"
      "localDescriptionSet eA = None" "remoteDescriptionSet eA = None"
      "signalingInserted eA = Done" "channelSent eA = Done"
    and eB: "userMedia eB = Inr stB" "newPeerConnection eB = None" "answerCreated eB = Inr ans"
      "localDescriptionSet eB = None" "remoteDescriptionSet eB = None"
      "signalingInserted eB = Done" "channelSent eB = Done"
    and sys: "sessA sys = A" "sessB sys = B" "wire sys = [(tp, m)]"
  shows "map headline (wire (relay_step eA eB sys)) =
           [(Offer, peerId (signaling A), Some (peerId (signaling B)))]"
    and "map headline (wire (relay_step eA eB (relay_step eA eB sys))) =
           [(Answer, peerId (signaling B), Some (peerId (signaling A)))]"
    and "wire (relay_step eA eB (relay_step eA eB (relay_step eA eB sys))) = []"
    and "remotePeerId (sessA (relay_step eA eB (relay_step eA eB (relay_step eA eB sys)))) =
           Some (peerId (signaling B))"
    and "isInitiator (sessA (relay_step eA eB (relay_step eA eB (relay_step eA eB sys))))"
    and "statusType (sessA (relay_step eA eB (relay_step eA eB (relay_step eA eB sys)))) = Connected"
    and "remote_description (sessA (relay_step eA eB (relay_step eA eB (relay_step eA eB sys)))) =
           Some (SessionDescription SdpAnswer ans)"
    and "remotePeerId (sessB (relay_step eA eB (relay_step eA eB (relay_step eA eB sys)))) =
           Some (peerId (signaling A))"
    and "\<not> isInitiator (sessB (relay_step eA eB (relay_step eA eB (relay_step eA eB sys))))"
    and "statusType (sessB (relay_step eA eB (relay_step eA eB (relay_step eA eB sys)))) = Connected"
    and "remote_description (sessB (relay_step eA eB (relay_step eA eB (relay_step eA eB sys)))) =
           Some (SessionDescription SdpOffer off)"
proof -
  let ?offer = "\<lparr>room_id = r, peer_id = peerId (signaling A), target_peer_id = Some (peer_id m),
         signal_type = Offer, signal_data = SessionDescription SdpOffer off\<rparr>"
  let ?wA = "\<lparr>peerConnection = Some
             ((fold addTrack (getTracks stA) new_RTCPeerConnection)
                \<lparr>localDescription := Some (SessionDescription SdpOffer off)\<rparr>),
           localStream = Some stA, remoteStream = None,
           onRemoteStreamCallback = Some RemoteAudioSink,
           onIceCandidateCallback = Some CandidateForwarder\<rparr>"
  let ?pcA = "(fold addTrack (getTracks stA) new_RTCPeerConnection)
                \<lparr>localDescription := Some (SessionDescription SdpOffer off)\<rparr>"
  let ?A1 = "A\<lparr>remotePeerId := Some (peer_id m), isInitiator := True,
        statusText := ''Peer joined! Ready to talk'', statusType := Connected,
        webrtc := Some ?wA\<rparr>"
  let ?answer = "\<lparr>room_id = r, peer_id = peerId (signaling B),
         target_peer_id = Some (peer_id ?offer),
         signal_type = Answer, signal_data = SessionDescription SdpAnswer ans\<rparr>"
  let ?B1 = "B\<lparr>remotePeerId := Some (peer_id ?offer), isInitiator := False,
        webrtc := Some
          \<lparr>peerConnection = Some
             ((fold addTrack (getTracks stB) new_RTCPeerConnection)
                \<lparr>remoteDescription := Some (SessionDescription SdpOffer off),
                  localDescription := Some (SessionDescription SdpAnswer ans)\<rparr>),
           localStream = Some stB, remoteStream = None,
           onRemoteStreamCallback = Some RemoteAudioSink,
           onIceCandidateCallback = Some CandidateForwarder\<rparr>,
        statusText := ''Connected! Ready to talk'', statusType := Connected\<rparr>"
  let ?A2 = "?A1\<lparr>webrtc := Some (?wA\<lparr>peerConnection :=
           Some (?pcA\<lparr>remoteDescription := Some (SessionDescription SdpAnswer ans)\<rparr>)\<rparr>),
        statusText := ''Connected! Ready to talk'', statusType := Connected\<rparr>"
  have mA: "peer_id m \<noteq> peerId (signaling A)" "peer_id m \<noteq> []"
    using ids m by simp_all
  have hA1: "handleSignalMessage eA m A =
      (?A1, [SignalingInsert ?offer, ChannelSend tp ?offer])"
    using A(1,2,3) r A(4) mA(2) m(1) eA(1,2,3,4,6,7) by (rule join_at_idle)
  have d1A: "deliver eA tp m A = (?A1, [SignalingInsert ?offer, ChannelSend tp ?offer])"
    using deliver_other [OF A(4) mA(1) A(5), of eA] hA1 by simp
  have d1B: "deliver eB tp m B = (B, [])"
    using m(2) by (rule deliver_own)
  have s1: "relay_step eA eB sys =
      sys\<lparr>sessA := ?A1, sessB := B, wire := [(tp, ?offer)]\<rparr>"
    using d1A d1B eA(7) eB(7) by (simp add: relay_step_def sys published_def)
  have hB1: "handleSignalMessage eB ?offer B =
      (?B1, [SignalingInsert ?answer, ChannelSend tp ?answer])"
    using B(1,2) r B(3) _ _ eB(1,2,3,4,5,6,7) by (rule offer_at_idle) simp_all
  have d2B: "deliver eB tp ?offer B = (?B1, [SignalingInsert ?answer, ChannelSend tp ?answer])"
    using deliver_other [OF B(3) _ B(4), of ?offer eB] hB1 ids(1) by simp
  have d2A: "deliver eA tp ?offer ?A1 = (?A1, [])"
    by (rule deliver_own) simp
  have s2: "relay_step eA eB (relay_step eA eB sys) =
      sys\<lparr>sessA := ?A1, sessB := ?B1, wire := [(tp, ?answer)]\<rparr>"
    unfolding s1 using d2A d2B eA(7) eB(7) by (simp add: relay_step_def published_def)
  have hA2: "handleSignalMessage eA ?answer ?A1 = (?A2, [])"
    by (rule answer_when_offering [where w = ?wA and pc = ?pcA]) (simp_all add: m eA)
  have d3A: "deliver eA tp ?answer ?A1 = (?A2, [])"
    using deliver_other [of ?A1 tp ?answer cbA eA] hA2 A(4,5) ids(1) by simp
  have d3B: "deliver eB tp ?answer ?B1 = (?B1, [])"
    by (rule deliver_own) simp
  have s3: "relay_step eA eB (relay_step eA eB (relay_step eA eB sys)) =
      sys\<lparr>sessA := ?A2, sessB := ?B1, wire := []\<rparr>"
    unfolding s2 using d3A d3B eA(7) eB(7) by (simp add: relay_step_def published_def)
  show "map headline (wire (relay_step eA eB sys)) =
           [(Offer, peerId (signaling A), Some (peerId (signaling B)))]"
    unfolding s1 by (simp add: headline_def m)
  show "map headline (wire (relay_step eA eB (relay_step eA eB sys))) =
           [(Answer, peerId (signaling B), Some (peerId (signaling A)))]"
    unfolding s2 by (simp add: headline_def)
  show "wire (relay_step eA eB (relay_step eA eB (relay_step eA eB sys))) = []"
    unfolding s3 by simp
  show "remotePeerId (sessA (relay_step eA eB (relay_step eA eB (relay_step eA eB sys)))) =
           Some (peerId (signaling B))"
    unfolding s3 by (simp add: m)
  show "isInitiator (sessA (relay_step eA eB (relay_step eA eB (relay_step eA eB sys))))"
    unfolding s3 by simp
  show "statusType (sessA (relay_step eA eB (relay_step eA eB (relay_step eA eB sys)))) = Connected"
    unfolding s3 by simp
  show "remote_description (sessA (relay_step eA eB (relay_step eA eB (relay_step eA eB sys)))) =
           Some (SessionDescription SdpAnswer ans)"
    unfolding s3 by (simp add: remote_description_def engine_def)
  show "remotePeerId (sessB (relay_step eA eB (relay_step eA eB (relay_step eA eB sys)))) =
           Some (peerId (signaling A))"
    unfolding s3 by simp
  show "\<not> isInitiator (sessB (relay_step eA eB (relay_step eA eB (relay_step eA eB sys))))"
    unfolding s3 by simp
  show "statusType (sessB (relay_step eA eB (relay_step eA eB (relay_step eA eB sys)))) = Connected"
    unfolding s3 by simp
  show "remote_description (sessB (relay_step eA eB (relay_step eA eB (relay_step eA eB sys)))) =
           Some (SessionDescription SdpOffer off)"
    unfolding s3 by (simp add: remote_description_def engine_def)
qed

lemma handshake_mirrored:
  assumes B: "webrtc B = None" "\<not> truthy (remotePeerId B)" "roomId (signaling B) = Some r"
      "channel (signaling B) = Some tp" "onMessageCallback (signaling B) = Some cbB"
    and A: "webrtc A = None" "roomId (signaling A) = Some r"
      "channel (signaling A) = Some tp" "onMessageCallback (signaling A) = Some cbA"
    and r: "r \<noteq> []"
    and ids: "peerId (signaling B) \<noteq> peerId (signaling A)" "peerId (signaling A) \<noteq> []"
    and m: "signal_type m = Join" "peer_id m = peerId (signaling A)"
    and eB: "userMedia eB = Inr stB" "newPeerConnection eB = None" "offerCreated eB = Inr off"
      "localDescriptionSet eB = None" "remoteDescriptionSet eB = None"
      "signalingInserted eB = Done" "channelSent eB = Done"
    and eA: "userMedia eA = Inr stA" "newPeerConnection eA = None" "answerCreated eA = Inr ans"
      "localDescriptionSet eA = None" "remoteDescriptionSet eA = None"
      "signalingInserted eA = Done" "channelSent eA = Done"
    and sys: "sessB sys = B" "sessA sys = A" "wire sys = [(tp, m)]"
  shows "map headline (wire (relay_step eA eB sys)) =
           [(Offer, peerId (signaling B), Some (peerId (signaling A)))]"
    and "map headline (wire (relay_step eA eB (relay_step eA eB sys))) =
           [(Answer, peerId (signaling A), Some (peerId (signaling B)))]"
    and "wire (relay_step eA eB (relay_step eA eB (relay_step eA eB sys))) = []"
    and "remotePeerId (sessB (relay_step eA eB (relay_step eA eB (relay_step eA eB sys)))) =
           Some (peerId (signaling A))"
    and "isInitiator (sessB (relay_step eA eB (relay_step eA eB (relay_step eA eB sys))))"
    and "statusType (sessB (relay_step eA eB (relay_step eA eB (relay_step eA eB sys)))) = Connected"
    and "remote_description (sessB (relay_step eA eB (relay_step eA eB (relay_step eA eB sys)))) =
           Some (SessionDescription SdpAnswer ans)"
    and "remotePeerId (sessA (relay_step eA eB (relay_step eA eB (relay_step eA eB sys)))) =
           Some (peerId (signaling B))"
    and "\<not> isInitiator (sessA (relay_step eA eB (relay_step eA eB (relay_step eA eB sys))))"
    and "statusType (sessA (relay_step eA eB (relay_step eA eB (relay_step eA eB sys)))) = Connected"
    and "remote_description (sessA (relay_step eA eB (relay_step eA eB (relay_step eA eB sys)))) =
           Some (SessionDescription SdpOffer off)"
proof -
  let ?offer = "\<lparr>room_id = r, peer_id = peerId (signaling B), target_peer_id = Some (peer_id m),
         signal_type = Offer, signal_data = SessionDescription SdpOffer off\<rparr>"
  let ?wB = "\<lparr>peerConnection = Some
             ((fold addTrack (getTracks stB) new_RTCPeerConnection)
                \<lparr>localDescription := Some (SessionDescription SdpOffer off)\<rparr>),
           localStream = Some stB, remoteStream = None,
           onRemoteStreamCallback = Some RemoteAudioSink,
           onIceCandidateCallback = Some CandidateForwarder\<rparr>"
  let ?pcB = "(fold addTrack (getTracks stB) new_RTCPeerConnection)
                \<lparr>localDescription := Some (SessionDescription SdpOffer off)\<rparr>"
  let ?B1 = "B\<lparr>remotePeerId := Some (peer_id m), isInitiator := True,
        statusText := ''Peer joined! Ready to talk'', statusType := Connected,
        webrtc := Some ?wB\<rparr>"
  let ?answer = "\<lparr>room_id = r, peer_id = peerId (signaling A),
         target_peer_id = Some (peer_id ?offer),
         signal_type = Answer, signal_data = SessionDescription SdpAnswer ans\<rparr>"
  let ?A1 = "A\<lparr>remotePeerId := Some (peer_id ?offer), isInitiator := False,
        webrtc := Some
          \<lparr>peerConnection = Some
             ((fold addTrack (getTracks stA) new_RTCPeerConnection)
                \<lparr>remoteDescription := Some (SessionDescription SdpOffer off),
                  localDescription := Some (SessionDescription SdpAnswer ans)\<rparr>),
           localStream = Some stA, remoteStream = None,
           onRemoteStreamCallback = Some RemoteAudioSink,
           onIceCandidateCallback = Some CandidateForwarder\<rparr>,
        statusText := ''Connected! Ready to talk'', statusType := Connected\<rparr>"
  let ?B2 = "?B1\<lparr>webrtc := Some (?wB\<lparr>peerConnection :=
           Some (?pcB\<lparr>remoteDescription := Some (SessionDescription SdpAnswer ans)\<rparr>)\<rparr>),
        statusText := ''Connected! Ready to talk'', statusType := Connected\<rparr>"
  have mB: "peer_id m \<noteq> peerId (signaling B)" "peer_id m \<noteq> []"
    using ids m by simp_all
  have hB1: "handleSignalMessage eB m B =
      (?B1, [SignalingInsert ?offer, ChannelSend tp ?offer])"
    using B(1,2,3) r B(4) mB(2) m(1) eB(1,2,3,4,6,7) by (rule join_at_idle)
  have d1B: "deliver eB tp m B = (?B1, [SignalingInsert ?offer, ChannelSend tp ?offer])"
    using deliver_other [OF B(4) mB(1) B(5), of eB] hB1 by simp
  have d1A: "deliver eA tp m A = (A, [])"
    using m(2) by (rule deliver_own)
  have s1: "relay_step eA eB sys =
      sys\<lparr>sessB := ?B1, sessA := A, wire := [(tp, ?offer)]\<rparr>"
    using d1B d1A eB(7) eA(7) by (simp add: relay_step_def sys published_def)
  have hA1: "handleSignalMessage eA ?offer A =
      (?A1, [SignalingInsert ?answer, ChannelSend tp ?answer])"
    using A(1,2) r A(3) _ _ eA(1,2,3,4,5,6,7) by (rule offer_at_idle) simp_all
  have d2A: "deliver eA tp ?offer A = (?A1, [SignalingInsert ?answer, ChannelSend tp ?answer])"
    using deliver_other [OF A(3) _ A(4), of ?offer eA] hA1 ids(1) by simp
  have d2B: "deliver eB tp ?offer ?B1 = (?B1, [])"
    by (rule deliver_own) simp
  have s2: "relay_step eA eB (relay_step eA eB sys) =
      sys\<lparr>sessB := ?B1, sessA := ?A1, wire := [(tp, ?answer)]\<rparr>"
    unfolding s1 using d2B d2A eB(7) eA(7) by (simp add: relay_step_def published_def)
  have hB2: "handleSignalMessage eB ?answer ?B1 = (?B2, [])"
    by (rule answer_when_offering [where w = ?wB and pc = ?pcB]) (simp_all add: m eB)
  have d3B: "deliver eB tp ?answer ?B1 = (?B2, [])"
    using deliver_other [of ?B1 tp ?answer cbB eB] hB2 B(4,5) ids(1) by simp
  have d3A: "deliver eA tp ?answer ?A1 = (?A1, [])"
    by (rule deliver_own) simp
  have s3: "relay_step eA eB (relay_step eA eB (relay_step eA eB sys)) =
      sys\<lparr>sessB := ?B2, sessA := ?A1, wire := []\<rparr>"
    unfolding s2 using d3B d3A eB(7) eA(7) by (simp add: relay_step_def published_def)
  show "map headline (wire (relay_step eA eB sys)) =
           [(Offer, peerId (signaling B), Some (peerId (signaling A)))]"
    unfolding s1 by (simp add: headline_def m)
  show "map headline (wire (relay_step eA eB (relay_step eA eB sys))) =
           [(Answer, peerId (signaling A), Some (peerId (signaling B)))]"
    unfolding s2 by (simp add: headline_def)
  show "wire (relay_step eA eB (relay_step eA eB (relay_step eA eB sys))) = []"
    unfolding s3 by simp
  show "remotePeerId (sessB (relay_step eA eB (relay_step eA eB (relay_step eA eB sys)))) =
           Some (peerId (signaling A))"
    unfolding s3 by (simp add: m)
  show "isInitiator (sessB (relay_step eA eB (relay_step eA eB (relay_step eA eB sys))))"
    unfolding s3 by simp
  show "statusType (sessB (relay_step eA eB (relay_step eA eB (relay_step eA eB sys)))) = Connected"
    unfolding s3 by simp
  show "remote_description (sessB (relay_step eA eB (relay_step eA eB (relay_step eA eB sys)))) =
           Some (SessionDescription SdpAnswer ans)"
    unfolding s3 by (simp add: remote_description_def engine_def)
  show "remotePeerId (sessA (relay_step eA eB (relay_step eA eB (relay_step eA eB sys)))) =
           Some (peerId (signaling B))"
    unfolding s3 by simp
  show "\<not> isInitiator (sessA (relay_step eA eB (relay_step eA eB (relay_step eA eB sys))))"
    unfolding s3 by simp
  show "statusType (sessA (relay_step eA eB (relay_step eA eB (relay_step eA eB sys)))) = Connected"
    unfolding s3 by simp
  show "remote_description (sessA (relay_step eA eB (relay_step eA eB (relay_step eA eB sys)))) =
           Some (SessionDescription SdpOffer off)"
    unfolding s3 by (simp add: remote_description_def engine_def)
qed

lemma relay_run_quiet: "wire sys = [] \<Longrightarrow> relay_run n eA eB sys = sys"
  by (cases n) simp_all

lemma relay_step_quiet: "wire sys = [] \<Longrightarrow> relay_step eA eB sys = sys"
  by (simp add: relay_step_def)

lemma relay_run_one:
  "wire (relay_step eA eB sys) = [] \<Longrightarrow> relay_run (Suc n) eA eB sys = relay_step eA eB sys"
  by (simp add: relay_run_quiet relay_step_quiet)

lemma relay_run_three:
  assumes "wire (relay_step eA eB (relay_step eA eB (relay_step eA eB sys))) = []"
  shows "relay_run (Suc (Suc (Suc n))) eA eB sys =
         relay_step eA eB (relay_step eA eB (relay_step eA eB sys))"
  using assms by (simp add: relay_run_quiet relay_step_quiet)

lemma cooperativeD:
  assumes "cooperative e"
  obtains st off ans where "userMedia e = Inr st" "newPeerConnection e = None"
    "offerCreated e = Inr off" "answerCreated e = Inr ans"
    "localDescriptionSet e = None" "remoteDescriptionSet e = None"
    "signalingInserted e = Done" "channelSent e = Done"
  using assms by (auto simp: cooperative_def completed_def split: sum.splits)

text \<open>
  C2. Two sessions \<open>A\<close> and \<open>B\<close> wait in the same room with different peer identifiers,
  the join of \<open>B\<close> is in flight and every collaborator call resolves. The first delivery
  leaves exactly one broadcast in flight, an \<open>offer\<close> from \<open>A\<close> addressed to \<open>B\<close>; the
  second exactly one, an \<open>answer\<close> from \<open>B\<close> addressed to \<open>A\<close>; after the third
  nothing is in flight, however many more deliveries are allowed. Then both sessions show the
  status \<open>connected\<close>, the engine of \<open>A\<close> holds the answer the engine of \<open>B\<close> created
  as its remote description, and the engine of \<open>B\<close> holds the offer of \<open>A\<close>.
\<close>

theorem round_trip_connects:
  assumes "waiting_in r A" and "waiting_in r B"
    and "peerId (signaling A) \<noteq> peerId (signaling B)"
    and "cooperative eA" and "cooperative eB"
  shows "map headline (wire (relay_run (Suc 0) eA eB (join_in_flight r T A B))) =
           [(Offer, peerId (signaling A), Some (peerId (signaling B)))] \<and>
         map headline (wire (relay_run (Suc (Suc 0)) eA eB (join_in_flight r T A B))) =
           [(Answer, peerId (signaling B), Some (peerId (signaling A)))] \<and>
         wire (relay_run (Suc (Suc (Suc n))) eA eB (join_in_flight r T A B)) = [] \<and>
         statusType (sessA (relay_run (Suc (Suc (Suc n))) eA eB (join_in_flight r T A B))) = Connected \<and>
         statusType (sessB (relay_run (Suc (Suc (Suc n))) eA eB (join_in_flight r T A B))) = Connected \<and>
         map_option Inr (remote_description (sessA (relay_run (Suc (Suc (Suc n))) eA eB (join_in_flight r T A B)))) =
           Some (pc_createAnswer eB) \<and>
         map_option Inr (remote_description (sessB (relay_run (Suc (Suc (Suc n))) eA eB (join_in_flight r T A B)))) =
           Some (pc_createOffer eA)"
proof -
  let ?sys = "join_in_flight r T A B"
  let ?tp = "''room:'' @ r"
  let ?s3 = "relay_step eA eB (relay_step eA eB (relay_step eA eB ?sys))"
  from assms(4) obtain stA off ansA where eA: "userMedia eA = Inr stA" "newPeerConnection eA = None"
    "offerCreated eA = Inr off" "answerCreated eA = Inr ansA"
    "localDescriptionSet eA = None" "remoteDescriptionSet eA = None"
    "signalingInserted eA = Done" "channelSent eA = Done"
    by (rule cooperativeD)
  from assms(5) obtain stB offB ans where eB: "userMedia eB = Inr stB" "newPeerConnection eB = None"
    "offerCreated eB = Inr offB" "answerCreated eB = Inr ans"
    "localDescriptionSet eB = None" "remoteDescriptionSet eB = None"
    "signalingInserted eB = Done" "channelSent eB = Done"
    by (rule cooperativeD)
  from assms(1) have A: "webrtc A = None" "\<not> truthy (remotePeerId A)" "roomId (signaling A) = Some r"
      "channel (signaling A) = Some ?tp" "onMessageCallback (signaling A) = Some SignalHandler"
    and r: "r \<noteq> []"
    by (simp_all add: waiting_in_def truthy_def)
  from assms(2) have B: "webrtc B = None" "roomId (signaling B) = Some r"
      "channel (signaling B) = Some ?tp" "onMessageCallback (signaling B) = Some SignalHandler"
    and b: "peerId (signaling B) \<noteq> []"
    by (simp_all add: waiting_in_def)
  have m: "signal_type (join_signal r B) = Join" "peer_id (join_signal r B) = peerId (signaling B)"
    by (simp_all add: join_signal_def)
  have sys: "sessA ?sys = A" "sessB ?sys = B" "wire ?sys = [(?tp, join_signal r B)]"
    by (simp_all add: join_in_flight_def)
  note h = handshake [OF A B r assms(3) b m eA(1,2,3,5,6,7,8) eB(1,2,4,5,6,7,8) sys]
  have w1: "wire (relay_step eA eB ?sys) \<noteq> []" using h(1) by auto
  have w2: "wire (relay_step eA eB (relay_step eA eB ?sys)) \<noteq> []" using h(2) by auto
  have r1: "relay_run (Suc 0) eA eB ?sys = relay_step eA eB ?sys"
    using sys(3) by simp
  have r2: "relay_run (Suc (Suc 0)) eA eB ?sys = relay_step eA eB (relay_step eA eB ?sys)"
    using sys(3) w1 by simp
  have r3: "relay_run (Suc (Suc (Suc n))) eA eB ?sys = ?s3"
    using h(3) by (rule relay_run_three)
  show ?thesis
    unfolding r1 r2 r3 using h by (simp add: pc_createAnswer_def pc_createOffer_def eA eB)
qed

theorem round_trip_connects_witness:
  "waiting_in ''room-1'' idle_session \<and> waiting_in ''room-1'' second_idle_session \<and>
   cooperative ok_env \<and>
   map headline (wire (relay_run (Suc 0) ok_env ok_env
       (join_in_flight ''room-1'' [] idle_session second_idle_session))) =
     [(Offer, ''peer_a'', Some ''peer_b'')] \<and>
   map headline (wire (relay_run (Suc (Suc 0)) ok_env ok_env
       (join_in_flight ''room-1'' [] idle_session second_idle_session))) =
     [(Answer, ''peer_b'', Some ''peer_a'')] \<and>
   wire (relay_run (Suc (Suc (Suc 0))) ok_env ok_env
       (join_in_flight ''room-1'' [] idle_session second_idle_session)) = [] \<and>
   statusType (sessA (relay_run (Suc (Suc (Suc 0))) ok_env ok_env
       (join_in_flight ''room-1'' [] idle_session second_idle_session))) = Connected \<and>
   statusType (sessB (relay_run (Suc (Suc (Suc 0))) ok_env ok_env
       (join_in_flight ''room-1'' [] idle_session second_idle_session))) = Connected \<and>
   remote_description (sessA (relay_run (Suc (Suc (Suc 0))) ok_env ok_env
       (join_in_flight ''room-1'' [] idle_session second_idle_session))) =
     Some (SessionDescription SdpAnswer ''v=0 answer'') \<and>
   remote_description (sessB (relay_run (Suc (Suc (Suc 0))) ok_env ok_env
       (join_in_flight ''room-1'' [] idle_session second_idle_session))) =
     Some (SessionDescription SdpOffer ''v=0 offer'')"
proof -
  have h: "waiting_in ''room-1'' idle_session" "waiting_in ''room-1'' second_idle_session"
    "peerId (signaling idle_session) \<noteq> peerId (signaling second_idle_session)"
    "cooperative ok_env"
    by (simp_all add: waiting_in_def idle_session_def second_idle_session_def joined_service_def
          cooperative_def completed_def ok_env_def)
  have p: "peerId (signaling idle_session) = ''peer_a''"
    "peerId (signaling second_idle_session) = ''peer_b''"
    "pc_createAnswer ok_env = Inr (SessionDescription SdpAnswer ''v=0 answer'')"
    "pc_createOffer ok_env = Inr (SessionDescription SdpOffer ''v=0 offer'')"
    by (simp_all add: idle_session_def second_idle_session_def joined_service_def
          pc_createAnswer_def pc_createOffer_def ok_env_def)
  from round_trip_connects [OF h(1,2,3,4,4), of "[]" 0] h p
  show ?thesis by (auto simp: map_option_case split: option.splits)
qed

lemma A_then_B_roles:
  assumes ids: "rndA \<noteq> rndB" and name: "name \<noteq> []"
    and cA: "cooperative eA" and cB: "cooperative eB"
    and rA: "newRoom eA = Inr rid" "rid \<noteq> []"
  shows "wire (A_then_B eA eB rndA rndB name (Suc (Suc (Suc k)))) = []"
    and "remotePeerId (sessA (A_then_B eA eB rndA rndB name (Suc (Suc (Suc k))))) =
           Some (generatePeerId rndB)"
    and "isInitiator (sessA (A_then_B eA eB rndA rndB name (Suc (Suc (Suc k)))))"
    and "remotePeerId (sessB (A_then_B eA eB rndA rndB name (Suc (Suc (Suc k))))) =
           Some (generatePeerId rndA)"
    and "\<not> isInitiator (sessB (A_then_B eA eB rndA rndB name (Suc (Suc (Suc k)))))"
proof -
  let ?n = "Suc (Suc (Suc k))"
  let ?tp = "''room:'' @ rid"
  let ?JA = "(new_ClickToTalkApp rndA)\<lparr>signaling :=
       \<lparr>roomId = Some rid, peerId = generatePeerId rndA, channel = Some ?tp,
        onMessageCallback = Some SignalHandler\<rparr>,
     statusText := ''Waiting for peer...'', statusType := Connecting,
     joinButtonDisabled := True, callSectionShown := True\<rparr>"
  let ?JB = "(new_ClickToTalkApp rndB)\<lparr>signaling :=
       \<lparr>roomId = Some rid, peerId = generatePeerId rndB, channel = Some ?tp,
        onMessageCallback = Some SignalHandler\<rparr>,
     statusText := ''Waiting for peer...'', statusType := Connecting,
     joinButtonDisabled := True, callSectionShown := True\<rparr>"
  let ?joinA = "\<lparr>room_id = rid, peer_id = generatePeerId rndA, target_peer_id = None,
     signal_type = Join, signal_data = PlainObject []\<rparr>"
  let ?joinB = "\<lparr>room_id = rid, peer_id = generatePeerId rndB, target_peer_id = None,
     signal_type = Join, signal_data = PlainObject []\<rparr>"
  from cA obtain stA offA ansA where eA: "userMedia eA = Inr stA" "newPeerConnection eA = None"
    "offerCreated eA = Inr offA" "answerCreated eA = Inr ansA"
    "localDescriptionSet eA = None" "remoteDescriptionSet eA = None"
    "signalingInserted eA = Done" "channelSent eA = Done"
    by (rule cooperativeD)
  from cB obtain stB offB ansB where eB: "userMedia eB = Inr stB" "newPeerConnection eB = None"
    "offerCreated eB = Inr offB" "answerCreated eB = Inr ansB"
    "localDescriptionSet eB = None" "remoteDescriptionSet eB = None"
    "signalingInserted eB = Done" "channelSent eB = Done"
    by (rule cooperativeD)
  let ?s0 = "initial_system rndA rndB"
  have a: "join_A eA name ?s0 =
      ?s0\<lparr>roomsTable := [(name, rid)], sessA := ?JA, wire := [(?tp, ?joinA)]\<rparr>"
    using name rA eA(7,8)
    by (simp add: join_A_def initial_system_def app_joinRoom_def joinRoom_def sendSignal_def
          new_ClickToTalkApp_def new_SignalingService_def updateStatus_def onMessage_def
          published_def Let_def)
  let ?s1 = "?s0\<lparr>roomsTable := [(name, rid)], sessA := ?JA, wire := []\<rparr>"
  have "relay_step eA eB (join_A eA name ?s0) = ?s1"
    unfolding a
    by (simp add: relay_step_def initial_system_def deliver_def broadcast_listener_def
          new_ClickToTalkApp_def new_SignalingService_def published_def)
  moreover have "wire ?s1 = []" by simp
  ultimately have b: "relay_run ?n eA eB (join_A eA name ?s0) = ?s1"
    using relay_run_one [of eA eB "join_A eA name ?s0"] by simp
  let ?s2 = "?s0\<lparr>roomsTable := [(name, rid)], sessA := ?JA, sessB := ?JB,
     wire := [(?tp, ?joinB)]\<rparr>"
  have c: "join_B eB name ?s1 = ?s2"
    using name rA(2) eB(7,8)
    by (simp add: join_B_def initial_system_def app_joinRoom_def joinRoom_def sendSignal_def
          new_ClickToTalkApp_def new_SignalingService_def updateStatus_def onMessage_def
          published_def Let_def)
  have run: "A_then_B eA eB rndA rndB name ?n = relay_run ?n eA eB ?s2"
    by (simp only: A_then_B_def b c)
  have A: "webrtc ?JA = None" "\<not> truthy (remotePeerId ?JA)" "roomId (signaling ?JA) = Some rid"
      "channel (signaling ?JA) = Some ?tp" "onMessageCallback (signaling ?JA) = Some SignalHandler"
    by (simp_all add: new_ClickToTalkApp_def truthy_def)
  have B: "webrtc ?JB = None" "roomId (signaling ?JB) = Some rid"
      "channel (signaling ?JB) = Some ?tp" "onMessageCallback (signaling ?JB) = Some SignalHandler"
    by (simp_all add: new_ClickToTalkApp_def)
  have pid: "peerId (signaling ?JA) \<noteq> peerId (signaling ?JB)" "peerId (signaling ?JB) \<noteq> []"
    using ids by (simp_all add: generatePeerId_def)
  have m: "signal_type ?joinB = Join" "peer_id ?joinB = peerId (signaling ?JB)"
    by simp_all
  have sys: "sessA ?s2 = ?JA" "sessB ?s2 = ?JB" "wire ?s2 = [(?tp, ?joinB)]"
    by simp_all
  note h = handshake [OF A B rA(2) pid m eA(1,2,3,5,6,7,8) eB(1,2,4,5,6,7,8) sys]
  have r3: "relay_run ?n eA eB ?s2 = relay_step eA eB (relay_step eA eB (relay_step eA eB ?s2))"
    using h(3) by (rule relay_run_three)
  show "wire (A_then_B eA eB rndA rndB name ?n) = []"
    unfolding run r3 using h(3) .
  show "remotePeerId (sessA (A_then_B eA eB rndA rndB name ?n)) = Some (generatePeerId rndB)"
    unfolding run r3 using h(4) by simp
  show "isInitiator (sessA (A_then_B eA eB rndA rndB name ?n))"
    unfolding run r3 using h(5) .
  show "remotePeerId (sessB (A_then_B eA eB rndA rndB name ?n)) = Some (generatePeerId rndA)"
    unfolding run r3 using h(8) by simp
  show "\<not> isInitiator (sessB (A_then_B eA eB rndA rndB name ?n))"
    unfolding run r3 using h(9) .
qed

lemma B_then_A_roles:
  assumes ids: "rndB \<noteq> rndA" and name: "name \<noteq> []"
    and cB: "cooperative eB" and cA: "cooperative eA"
    and rB: "newRoom eB = Inr rid" "rid \<noteq> []"
  shows "wire (B_then_A eA eB rndA rndB name (Suc (Suc (Suc k)))) = []"
    and "remotePeerId (sessB (B_then_A eA eB rndA rndB name (Suc (Suc (Suc k))))) =
           Some (generatePeerId rndA)"
    and "isInitiator (sessB (B_then_A eA eB rndA rndB name (Suc (Suc (Suc k)))))"
    and "remotePeerId (sessA (B_then_A eA eB rndA rndB name (Suc (Suc (Suc k))))) =
           Some (generatePeerId rndB)"
    and "\<not> isInitiator (sessA (B_then_A eA eB rndA rndB name (Suc (Suc (Suc k)))))"
proof -
  let ?n = "Suc (Suc (Suc k))"
  let ?tp = "''room:'' @ rid"
  let ?JB = "(new_ClickToTalkApp rndB)\<lparr>signaling :=
       \<lparr>roomId = Some rid, peerId = generatePeerId rndB, channel = Some ?tp,
        onMessageCallback = Some SignalHandler\<rparr>,
     statusText := ''Waiting for peer...'', statusType := Connecting,
     joinButtonDisabled := True, callSectionShown := True\<rparr>"
  let ?JA = "(new_ClickToTalkApp rndA)\<lparr>signaling :=
       \<lparr>roomId = Some rid, peerId = generatePeerId rndA, channel = Some ?tp,
        onMessageCallback = Some SignalHandler\<rparr>,
     statusText := ''Waiting for peer...'', statusType := Connecting,
     joinButtonDisabled := True, callSectionShown := True\<rparr>"
  let ?joinB = "\<lparr>room_id = rid, peer_id = generatePeerId rndB, target_peer_id = None,
     signal_type = Join, signal_data = PlainObject []\<rparr>"
  let ?joinA = "\<lparr>room_id = rid, peer_id = generatePeerId rndA, target_peer_id = None,
     signal_type = Join, signal_data = PlainObject []\<rparr>"
  from cB obtain stB offB ansB where eB: "userMedia eB = Inr stB" "newPeerConnection eB = None"
    "offerCreated eB = Inr offB" "answerCreated eB = Inr ansB"
    "localDescriptionSet eB = None" "remoteDescriptionSet eB = None"
    "signalingInserted eB = Done" "channelSent eB = Done"
    by (rule cooperativeD)
  from cA obtain stA offA ansA where eA: "userMedia eA = Inr stA" "newPeerConnection eA = None"
    "offerCreated eA = Inr offA" "answerCreated eA = Inr ansA"
    "localDescriptionSet eA = None" "remoteDescriptionSet eA = None"
    "signalingInserted eA = Done" "channelSent eA = Done"
    by (rule cooperativeD)
  let ?s0 = "initial_system rndA rndB"
  have a: "join_B eB name ?s0 =
      ?s0\<lparr>roomsTable := [(name, rid)], sessB := ?JB, wire := [(?tp, ?joinB)]\<rparr>"
    using name rB eB(7,8)
    by (simp add: join_B_def initial_system_def app_joinRoom_def joinRoom_def sendSignal_def
          new_ClickToTalkApp_def new_SignalingService_def updateStatus_def onMessage_def
          published_def Let_def)
  let ?s1 = "?s0\<lparr>roomsTable := [(name, rid)], sessB := ?JB, wire := []\<rparr>"
  have "relay_step eA eB (join_B eB name ?s0) = ?s1"
    unfolding a
    by (simp add: relay_step_def initial_system_def deliver_def broadcast_listener_def
          new_ClickToTalkApp_def new_SignalingService_def published_def)
  moreover have "wire ?s1 = []" by simp
  ultimately have b: "relay_run ?n eA eB (join_B eB name ?s0) = ?s1"
    using relay_run_one [of eA eB "join_B eB name ?s0"] by simp
  let ?s2 = "?s0\<lparr>roomsTable := [(name, rid)], sessB := ?JB, sessA := ?JA,
     wire := [(?tp, ?joinA)]\<rparr>"
  have c: "join_A eA name ?s1 = ?s2"
    using name rB(2) eA(7,8)
    by (simp add: join_A_def initial_system_def app_joinRoom_def joinRoom_def sendSignal_def
          new_ClickToTalkApp_def new_SignalingService_def updateStatus_def onMessage_def
          published_def Let_def)
  have run: "B_then_A eA eB rndA rndB name ?n = relay_run ?n eA eB ?s2"
    by (simp only: B_then_A_def b c)
  have B: "webrtc ?JB = None" "\<not> truthy (remotePeerId ?JB)" "roomId (signaling ?JB) = Some rid"
      "channel (signaling ?JB) = Some ?tp" "onMessageCallback (signaling ?JB) = Some SignalHandler"
    by (simp_all add: new_ClickToTalkApp_def truthy_def)
  have A: "webrtc ?JA = None" "roomId (signaling ?JA) = Some rid"
      "channel (signaling ?JA) = Some ?tp" "onMessageCallback (signaling ?JA) = Some SignalHandler"
    by (simp_all add: new_ClickToTalkApp_def)
  have pid: "peerId (signaling ?JB) \<noteq> peerId (signaling ?JA)" "peerId (signaling ?JA) \<noteq> []"
    using ids by (simp_all add: generatePeerId_def)
  have m: "signal_type ?joinA = Join" "peer_id ?joinA = peerId (signaling ?JA)"
    by simp_all
  have sys: "sessB ?s2 = ?JB" "sessA ?s2 = ?JA" "wire ?s2 = [(?tp, ?joinA)]"
    by simp_all
  note h = handshake_mirrored [OF B A rB(2) pid m eB(1,2,3,5,6,7,8) eA(1,2,4,5,6,7,8) sys]
  have r3: "relay_run ?n eA eB ?s2 = relay_step eA eB (relay_step eA eB (relay_step eA eB ?s2))"
    using h(3) by (rule relay_run_three)
  show "wire (B_then_A eA eB rndA rndB name ?n) = []"
    unfolding run r3 using h(3) .
  show "remotePeerId (sessB (B_then_A eA eB rndA rndB name ?n)) = Some (generatePeerId rndA)"
    unfolding run r3 using h(4) by simp
  show "isInitiator (sessB (B_then_A eA eB rndA rndB name ?n))"
    unfolding run r3 using h(5) .
  show "remotePeerId (sessA (B_then_A eA eB rndA rndB name ?n)) = Some (generatePeerId rndB)"
    unfolding run r3 using h(8) by simp
  show "\<not> isInitiator (sessA (B_then_A eA eB rndA rndB name ?n))"
    unfolding run r3 using h(9) .
qed

lemma role_of_bound:
  "remotePeerId s = Some (generatePeerId rnd) \<Longrightarrow>
   role_of s = (if isInitiator s then Initiator else Responder)"
  by (simp add: role_of_def truthy_def generatePeerId_def)

text \<open>
  C1, as the code has it. Two new sessions with different peer identifiers join the room of
  the same name one after the other, the relay delivering the first session's \<open>join\<close>
  before the second session joins; every collaborator call resolves and the relay then
  delivers what is in flight (at least three deliveries allowed). Whichever session joins
  first, when nothing is in flight any more the first joiner is the initiator and the second
  the responder, each bound to the other: one initiator and one responder, never two of a
  kind and never a session without a role.
\<close>

theorem exactly_one_initiator:
  assumes "rndA \<noteq> rndB" and "name \<noteq> []"
    and "cooperative eA" and "cooperative eB"
    and "creates_room eA" and "creates_room eB"
    and "3 \<le> n"
  shows "wire (A_then_B eA eB rndA rndB name n) = [] \<and>
         role_of (sessA (A_then_B eA eB rndA rndB name n)) = Initiator \<and>
         role_of (sessB (A_then_B eA eB rndA rndB name n)) = Responder \<and>
         remotePeerId (sessA (A_then_B eA eB rndA rndB name n)) = Some (generatePeerId rndB) \<and>
         remotePeerId (sessB (A_then_B eA eB rndA rndB name n)) = Some (generatePeerId rndA) \<and>
         wire (B_then_A eA eB rndA rndB name n) = [] \<and>
         role_of (sessB (B_then_A eA eB rndA rndB name n)) = Initiator \<and>
         role_of (sessA (B_then_A eA eB rndA rndB name n)) = Responder \<and>
         remotePeerId (sessB (B_then_A eA eB rndA rndB name n)) = Some (generatePeerId rndA) \<and>
         remotePeerId (sessA (B_then_A eA eB rndA rndB name n)) = Some (generatePeerId rndB)"
proof -
  from assms(7) obtain k where n: "n = Suc (Suc (Suc k))"
    by (metis Suc_le_D numeral_3_eq_3 Suc_le_mono)
  from assms(5) obtain ridA where rA: "newRoom eA = Inr ridA" "ridA \<noteq> []"
    by (auto simp: creates_room_def split: sum.splits)
  from assms(6) obtain ridB where rB: "newRoom eB = Inr ridB" "ridB \<noteq> []"
    by (auto simp: creates_room_def split: sum.splits)
  note ab = A_then_B_roles [OF assms(1,2,3,4) rA, of k]
  from assms(1) have ba_ids: "rndB \<noteq> rndA" by simp
  note ba = B_then_A_roles [OF ba_ids assms(2) assms(4) assms(3) rB, of k]
  show ?thesis
    unfolding n
    using ab ba role_of_bound [OF ab(2)] role_of_bound [OF ab(4)]
      role_of_bound [OF ba(2)] role_of_bound [OF ba(4)]
    by simp
qed

theorem exactly_one_initiator_witness:
  "cooperative ok_env \<and> creates_room ok_env \<and>
   wire (A_then_B ok_env ok_env ''k3x9'' ''q7w2'' ''demo'' 3) = [] \<and>
   role_of (sessA (A_then_B ok_env ok_env ''k3x9'' ''q7w2'' ''demo'' 3)) = Initiator \<and>
   role_of (sessB (A_then_B ok_env ok_env ''k3x9'' ''q7w2'' ''demo'' 3)) = Responder \<and>
   remotePeerId (sessA (A_then_B ok_env ok_env ''k3x9'' ''q7w2'' ''demo'' 3)) = Some ''peer_q7w2'' \<and>
   remotePeerId (sessB (A_then_B ok_env ok_env ''k3x9'' ''q7w2'' ''demo'' 3)) = Some ''peer_k3x9'' \<and>
   role_of (sessB (B_then_A ok_env ok_env ''k3x9'' ''q7w2'' ''demo'' 3)) = Initiator \<and>
   role_of (sessA (B_then_A ok_env ok_env ''k3x9'' ''q7w2'' ''demo'' 3)) = Responder"
proof -
  have h: "''k3x9'' \<noteq> ''q7w2''" "''demo'' \<noteq> []" "cooperative ok_env"
    "creates_room ok_env" "(3::nat) \<le> 3"
    by (simp_all add: cooperative_def creates_room_def completed_def ok_env_def)
  from exactly_one_initiator [OF h(1,2,3,3,4,4,5)] h(3,4)
  show ?thesis by (simp add: generatePeerId_def)
qed

text \<open>
  C1 as stated fails when the two joins overlap: both sessions join the room \<open>demo\<close>
  before the relay delivers anything and every collaborator call resolves. After two
  deliveries each session has handled the other's \<open>join\<close> and both are initiators; each then
  handles the other's \<open>offer\<close>, which clears its initiator flag. After six deliveries nothing
  is in flight, each session is bound to the other, and both are responders.
\<close>

lemmas system_defs = join_A_def join_B_def initial_system_def app_joinRoom_def
  joinRoom_def sendSignal_def new_ClickToTalkApp_def new_SignalingService_def onMessage_def
  published_def relay_step_def deliver_def broadcast_listener_def generatePeerId_def

theorem overlapping_joins_counterexample:
  "cooperative ok_env \<and> creates_room ok_env \<and>
   role_of (sessA (joins_overlap ok_env ok_env ''k3x9'' ''q7w2'' ''demo'' 2)) = Initiator \<and>
   role_of (sessB (joins_overlap ok_env ok_env ''k3x9'' ''q7w2'' ''demo'' 2)) = Initiator \<and>
   wire (joins_overlap ok_env ok_env ''k3x9'' ''q7w2'' ''demo'' 6) = [] \<and>
   remotePeerId (sessA (joins_overlap ok_env ok_env ''k3x9'' ''q7w2'' ''demo'' 6)) = Some ''peer_q7w2'' \<and>
   remotePeerId (sessB (joins_overlap ok_env ok_env ''k3x9'' ''q7w2'' ''demo'' 6)) = Some ''peer_k3x9'' \<and>
   role_of (sessA (joins_overlap ok_env ok_env ''k3x9'' ''q7w2'' ''demo'' 6)) = Responder \<and>
   role_of (sessB (joins_overlap ok_env ok_env ''k3x9'' ''q7w2'' ''demo'' 6)) = Responder"
  by (simp add: joins_overlap_def numeral_eq_Suc system_defs handler_defs webrtc_defs ok_env_def
        truthy_def role_of_def cooperative_def creates_room_def completed_def Let_def)

end
